theory Spec2Isabelle
  imports Complex_Main
begin

section \<open>JavaScript values and Firestore documents\<close>

text \<open>
  The application is TypeScript over the Firebase SDK. The values that reach the code
  from the document store are untyped at run time (the \<^verbatim>\<open>as Recipe\<close> casts check
  nothing), so a stored field is modelled as a JavaScript value, and the operators the
  source applies to it (\<^verbatim>\<open>||\<close>, \<^verbatim>\<open>??\<close>, \<^verbatim>\<open>!\<close>, \<^verbatim>\<open>===\<close>, \<^verbatim>\<open>instanceof\<close>) are
  written out.

  A JavaScript number is a double. None of the code below computes with numbers; it only
  tests them for truthiness and nullishness and copies them. The model keeps the finite
  values as rationals, with \<open>NaN\<close> and the two infinities beside them (negative zero is
  the same as zero for every operator used here).
\<close>

datatype number = NaN | PosInfinity | NegInfinity | Num rat

text \<open>A Firestore \<^verbatim>\<open>Timestamp\<close>: seconds and nanoseconds since the epoch.\<close>

datatype timestamp = Timestamp (seconds: int) (nanoseconds: int)

text \<open>A JavaScript \<^verbatim>\<open>Date\<close>: milliseconds since the epoch.\<close>

datatype date = Date (millis: int)

datatype jsval =
    JUndefined
  | JNull
  | JBool bool
  | JNum number
  | JStr string
  | JTimestamp timestamp
  | JArr "jsval list"
  | JObj "(string \<times> jsval) list"

text \<open>The data of a document snapshot: field name to value.\<close>

type_synonym document = "string \<rightharpoonup> jsval"

datatype exn = TypeError | StoreError | NotFoundSignal | AuthError string | RenderError

text \<open>\<^verbatim>\<open>!!n\<close> for a number: zero and NaN are falsy.\<close>

fun num_truthy :: "number \<Rightarrow> bool" where
  "num_truthy NaN = False"
| "num_truthy (Num q) = (q \<noteq> 0)"
| "num_truthy PosInfinity = True"
| "num_truthy NegInfinity = True"

text \<open>\<^verbatim>\<open>n > 0\<close> for a number.\<close>

fun num_positive :: "number \<Rightarrow> bool" where
  "num_positive (Num q) = (0 < q)"
| "num_positive PosInfinity = True"
| "num_positive n = False"

text \<open>\<^verbatim>\<open>!!v\<close>: undefined, null, false, 0, NaN and the empty string are falsy; every
  object (arrays, also empty ones, maps, timestamps) is truthy.\<close>

fun truthy :: "jsval \<Rightarrow> bool" where
  "truthy JUndefined = False"
| "truthy JNull = False"
| "truthy (JBool b) = b"
| "truthy (JNum n) = num_truthy n"
| "truthy (JStr s) = (s \<noteq> [])"
| "truthy (JTimestamp t) = True"
| "truthy (JArr xs) = True"
| "truthy (JObj kvs) = True"

fun nullish :: "jsval \<Rightarrow> bool" where
  "nullish JUndefined = True"
| "nullish JNull = True"
| "nullish v = False"

text \<open>\<^verbatim>\<open>a || b\<close> and \<^verbatim>\<open>a ?? b\<close>.\<close>

definition js_or :: "jsval \<Rightarrow> jsval \<Rightarrow> jsval" where
  "js_or a b = (if truthy a then a else b)"

definition js_coalesce :: "jsval \<Rightarrow> jsval \<Rightarrow> jsval" where
  "js_coalesce a b = (if nullish a then b else a)"

text \<open>\<^verbatim>\<open>data.k\<close> on an object: a missing property reads as undefined.\<close>

definition js_get :: "document \<Rightarrow> string \<Rightarrow> jsval" where
  "js_get data k = (case data k of None \<Rightarrow> JUndefined | Some v \<Rightarrow> v)"

text \<open>\<^verbatim>\<open>data?.k\<close>: as above, and undefined when \<open>data\<close> itself is undefined
  (\<^verbatim>\<open>docSnap.data()\<close> of a snapshot that does not exist).\<close>

definition js_opt_get :: "document option \<Rightarrow> string \<Rightarrow> jsval" where
  "js_opt_get data k = (case data of None \<Rightarrow> JUndefined | Some d \<Rightarrow> js_get d k)"

definition instanceof_Timestamp :: "jsval \<Rightarrow> bool" where
  "instanceof_Timestamp v = (case v of JTimestamp t \<Rightarrow> True | _ \<Rightarrow> False)"

text \<open>
  \<^verbatim>\<open>Timestamp.toDate()\<close> of the SDK: \<^verbatim>\<open>new Date(seconds * 1000 + nanoseconds / 1e6)\<close>;
  the \<^verbatim>\<open>Date\<close> constructor cuts the fraction off towards zero. \<^verbatim>\<open>Timestamp.fromDate\<close>
  is the SDK's way back (whole seconds rounded down, the rest as nanoseconds); it is what
  the store does to a \<^verbatim>\<open>Date\<close> that is written to it.

  The SDK computes the sum in double precision. The sum is exact here, so that for a
  timestamp within rounding distance of a whole millisecond the date below can be one
  millisecond from the SDK's. The only property of the two functions that is used is
  that a date written and read back is the same date, which holds of the SDK as well:
  a date is a whole number of milliseconds, small enough for every step to be exact.
\<close>

definition Timestamp_toDate :: "timestamp \<Rightarrow> date" where
  "Timestamp_toDate t =
     (let total = seconds t * 1000000000 + nanoseconds t
      in Date (sgn total * (\<bar>total\<bar> div 1000000)))"

definition Timestamp_fromDate :: "date \<Rightarrow> timestamp" where
  "Timestamp_fromDate d = Timestamp (millis d div 1000) ((millis d mod 1000) * 1000000)"

text \<open>\<^verbatim>\<open>v.toDate()\<close> on an arbitrary value: a TypeError unless \<open>v\<close> is a Timestamp.\<close>

definition toDate :: "jsval \<Rightarrow> exn + date" where
  "toDate v = (case v of JTimestamp t \<Rightarrow> Inr (Timestamp_toDate t) | _ \<Rightarrow> Inl TypeError)"

section \<open>The record mapper\<close>

text \<open>
  The object literal that the recipe list page and the recipe detail page build from a
  snapshot. The field \<open>createdAt\<close> is a \<^verbatim>\<open>Date\<close> or undefined on the list page and the
  stored value or undefined on the detail page, hence the type parameter.
\<close>

record 'c Recipe =
  r_id :: string
  r_name :: jsval
  r_ingredients :: jsval
  r_instructions :: jsval
  r_cookingTime :: jsval
  r_servings :: jsval
  r_userId :: jsval
  r_imageUrl :: jsval
  r_categories :: jsval
  r_createdAt :: 'c

text \<open>\<^verbatim>\<open>RecipesPage.fetchRecipes\<close>, the callback of \<^verbatim>\<open>querySnapshot.docs.map\<close>.\<close>

definition mapRecipe_list :: "string \<Rightarrow> document \<Rightarrow> exn + date option Recipe" where
  "mapRecipe_list doc_id data =
     (case (if instanceof_Timestamp (js_get data ''createdAt'')
            then map_sum id Some (toDate (js_get data ''createdAt''))
            else Inr None) of
        Inl e \<Rightarrow> Inl e
      | Inr created \<Rightarrow>
          Inr \<lparr> r_id = doc_id,
                r_name = js_or (js_get data ''name'') (JStr ''Untitled Recipe''),
                r_ingredients = js_or (js_get data ''ingredients'') (JArr []),
                r_instructions = js_or (js_get data ''instructions'') (JArr []),
                r_cookingTime = js_coalesce (js_get data ''cookingTime'') (JNum (Num 0)),
                r_servings = js_coalesce (js_get data ''servings'') (JNum (Num 0)),
                r_userId = js_or (js_get data ''userId'') (JStr ''unknown''),
                r_imageUrl = js_or (js_get data ''imageUrl'') (JStr ''''),
                r_categories = js_or (js_get data ''categories'') (JArr []),
                r_createdAt = created \<rparr>)"

text \<open>\<^verbatim>\<open>RecipeDetailPage\<close>, client and server version alike: the same literal over
  \<^verbatim>\<open>data?.\<close>, with \<^verbatim>\<open>createdAt: data?.createdAt || undefined\<close>.\<close>

definition mapRecipe_detail :: "string \<Rightarrow> document option \<Rightarrow> jsval Recipe" where
  "mapRecipe_detail doc_id data =
     \<lparr> r_id = doc_id,
       r_name = js_or (js_opt_get data ''name'') (JStr ''Untitled Recipe''),
       r_ingredients = js_or (js_opt_get data ''ingredients'') (JArr []),
       r_instructions = js_or (js_opt_get data ''instructions'') (JArr []),
       r_cookingTime = js_coalesce (js_opt_get data ''cookingTime'') (JNum (Num 0)),
       r_servings = js_coalesce (js_opt_get data ''servings'') (JNum (Num 0)),
       r_userId = js_or (js_opt_get data ''userId'') (JStr ''unknown''),
       r_imageUrl = js_or (js_opt_get data ''imageUrl'') (JStr ''''),
       r_categories = js_or (js_opt_get data ''categories'') (JArr []),
       r_createdAt = js_or (js_opt_get data ''createdAt'') JUndefined \<rparr>"

section \<open>The document store\<close>

text \<open>
  The store is the Firebase SDK, outside the repository. What the pages use of it is a
  collection scan (\<^verbatim>\<open>getDocs\<close>), a read by id (\<^verbatim>\<open>getDoc\<close>) and an insert
  (\<^verbatim>\<open>addDoc\<close>), each of which either resolves or rejects. The model keeps the recipes
  collection as an association list of id and data and a flag saying whether the store
  can be reached; a rejected call is \<open>Inl StoreError\<close>.
\<close>

record store =
  st_recipes :: "(string \<times> document) list"
  st_reachable :: bool

definition getDocs :: "store \<Rightarrow> exn + (string \<times> document) list" where
  "getDocs st = (if st_reachable st then Inr (st_recipes st) else Inl StoreError)"

text \<open>A document snapshot: \<^verbatim>\<open>docSnap.id\<close>, and \<^verbatim>\<open>docSnap.data()\<close>, which is undefined
  when the document does not exist.\<close>

record snapshot =
  snap_id :: string
  snap_data :: "document option"

definition snap_exists :: "snapshot \<Rightarrow> bool" where
  "snap_exists docSnap = (snap_data docSnap \<noteq> None)"

definition getDoc :: "store \<Rightarrow> string \<Rightarrow> exn + snapshot" where
  "getDoc st doc_id =
     (if st_reachable st
      then Inr \<lparr> snap_id = doc_id, snap_data = map_of (st_recipes st) doc_id \<rparr>
      else Inl StoreError)"

text \<open>\<^verbatim>\<open>notFound()\<close> of \<^verbatim>\<open>next/navigation\<close> never returns: it throws the signal that
  the framework turns into its not-found page when the signal reaches it.\<close>

definition notFound :: "exn + unit" where
  "notFound = Inl NotFoundSignal"

section \<open>The recipe list page\<close>

record RecipesPage =
  rp_recipes :: "date option Recipe list"
  rp_loading :: bool
  rp_error :: "string option"

definition RecipesPage_init :: RecipesPage where
  "RecipesPage_init = \<lparr> rp_recipes = [], rp_loading = True, rp_error = None \<rparr>"

text \<open>\<^verbatim>\<open>querySnapshot.docs.map(...)\<close>: an exception in one callback ends the whole map.\<close>

fun map_docs :: "(string \<times> document) list \<Rightarrow> exn + date option Recipe list" where
  "map_docs [] = Inr []"
| "map_docs (d # ds) =
     (case mapRecipe_list (fst d) (snd d) of
        Inl e \<Rightarrow> Inl e
      | Inr r \<Rightarrow> (case map_docs ds of Inl e \<Rightarrow> Inl e | Inr rs \<Rightarrow> Inr (r # rs)))"

text \<open>\<^verbatim>\<open>fetchRecipes\<close>: the \<^verbatim>\<open>try\<close> body, the \<^verbatim>\<open>catch\<close> and the \<^verbatim>\<open>finally\<close>.\<close>

definition fetchRecipes :: "store \<Rightarrow> RecipesPage \<Rightarrow> RecipesPage" where
  "fetchRecipes st s =
     (case (case getDocs st of Inl e \<Rightarrow> Inl e | Inr docs \<Rightarrow> map_docs docs) of
        Inl e \<Rightarrow>
          s\<lparr> rp_error := Some ''Failed to loead recipes. Please try again later.'',
             rp_loading := False \<rparr>
      | Inr recipesList \<Rightarrow> s\<lparr> rp_recipes := recipesList, rp_loading := False \<rparr>)"

section \<open>The session store\<close>

record User =
  uid :: string
  email :: string

text \<open>The two state variables of \<^verbatim>\<open>AuthProvider\<close>.\<close>

record auth_state =
  currentUser :: "User option"
  loading :: bool

definition AuthProvider_init :: auth_state where
  "AuthProvider_init = \<lparr> currentUser = None, loading = True \<rparr>"

text \<open>
  What can happen to a mounted \<^verbatim>\<open>AuthProvider\<close>: the provider calls the
  \<^verbatim>\<open>onAuthStateChanged\<close> callback, or a consumer calls \<^verbatim>\<open>signup\<close>, \<^verbatim>\<open>login\<close> or
  \<^verbatim>\<open>logout\<close>. Only the callback writes the state variables; the three operations talk
  to the provider and leave them alone.
\<close>

datatype auth_event =
    AuthStateChanged "User option"
  | SignupCalled string string
  | LoginCalled string string
  | LogoutCalled

fun auth_step :: "auth_state \<Rightarrow> auth_event \<Rightarrow> auth_state" where
  "auth_step s (AuthStateChanged user) = s\<lparr> currentUser := user, loading := False \<rparr>"
| "auth_step s (SignupCalled e p) = s"
| "auth_step s (LoginCalled e p) = s"
| "auth_step s LogoutCalled = s"

definition auth_run :: "auth_state \<Rightarrow> auth_event list \<Rightarrow> auth_state" where
  "auth_run s es = foldl auth_step s es"

fun is_callback :: "auth_event \<Rightarrow> bool" where
  "is_callback (AuthStateChanged user) = True"
| "is_callback e = False"

text \<open>The three states of the specification, read off the two state variables.\<close>

datatype session = Unresolved | Anonymous | Authenticated User

definition session_of :: "auth_state \<Rightarrow> session" where
  "session_of s =
     (if loading s then Unresolved
      else case currentUser s of None \<Rightarrow> Anonymous | Some u \<Rightarrow> Authenticated u)"

text \<open>The effect at the head of \<^verbatim>\<open>AddRecipePage\<close>, a consumer of the store: the route it
  pushes, if any. It sends the visitor to the login page only once the store is resolved
  and holds no user.\<close>

definition AddRecipePage_redirect :: "auth_state \<Rightarrow> string option" where
  "AddRecipePage_redirect a =
     (if \<not> loading a \<and> currentUser a = None then Some ''/login'' else None)"

subsection \<open>Sign-up\<close>

text \<open>What \<^verbatim>\<open>signup\<close> acts on: the provider's current session, the profiles of the
  users collection, and the console.\<close>

record profile =
  p_email :: string
  p_createdAt :: date

record world =
  w_session :: "User option"
  w_users :: "string \<rightharpoonup> profile"
  w_console :: "string list"

text \<open>
  Modelled from the spec: the identity provider and the profile write are the Firebase
  SDK, outside the repository. \<^verbatim>\<open>createUserWithEmailAndPassword\<close> either rejects with
  a message or creates the account and begins a session for it; \<^verbatim>\<open>setDoc\<close> either
  rejects or stores the profile under the given id. Which of the two happens is the
  environment's choice, passed in as the response.
\<close>

definition createUserWithEmailAndPassword ::
  "world \<Rightarrow> string \<Rightarrow> string \<Rightarrow> string + User \<Rightarrow> (exn + User) \<times> world" where
  "createUserWithEmailAndPassword w em pw response =
     (case response of
        Inl msg \<Rightarrow> (Inl (AuthError msg), w)
      | Inr user \<Rightarrow> (Inr user, w\<lparr> w_session := Some user \<rparr>))"

definition setDoc :: "world \<Rightarrow> string \<Rightarrow> profile \<Rightarrow> bool \<Rightarrow> (exn + unit) \<times> world" where
  "setDoc w doc_id p accepted =
     (if accepted then (Inr (), w\<lparr> w_users := (w_users w)(doc_id \<mapsto> p) \<rparr>)
      else (Inl StoreError, w))"

text \<open>\<^verbatim>\<open>signup\<close>: both awaits are in one \<^verbatim>\<open>try\<close>; the \<^verbatim>\<open>catch\<close> logs and rethrows.\<close>

definition signup ::
  "world \<Rightarrow> string \<Rightarrow> string \<Rightarrow> string + User \<Rightarrow> bool \<Rightarrow> date \<Rightarrow> (exn + unit) \<times> world" where
  "signup w em pw response accepted now =
     (case createUserWithEmailAndPassword w em pw response of
        (Inl e, w1) \<Rightarrow> (Inl e, w1\<lparr> w_console := w_console w1 @ [''Signup error:''] \<rparr>)
      | (Inr user, w1) \<Rightarrow>
          (case setDoc w1 (uid user) \<lparr> p_email = email user, p_createdAt = now \<rparr> accepted of
             (Inl e, w2) \<Rightarrow> (Inl e, w2\<lparr> w_console := w_console w2 @ [''Signup error:''] \<rparr>)
           | (Inr u, w2) \<Rightarrow> (Inr (), w2)))"

section \<open>The recipe detail page\<close>

record DetailPage =
  dp_recipe :: "jsval Recipe option"
  dp_loading :: bool
  dp_error :: "string option"

definition DetailPage_init :: DetailPage where
  "DetailPage_init = \<lparr> dp_recipe = None, dp_loading = True, dp_error = None \<rparr>"

text \<open>The body of the \<^verbatim>\<open>try\<close> of the client page's \<^verbatim>\<open>fetchRecipe\<close>, and of the server
  page up to its markup: read the snapshot, call \<^verbatim>\<open>notFound()\<close> when it does not
  exist, build the recipe.\<close>

definition load_recipe :: "store \<Rightarrow> string \<Rightarrow> exn + jsval Recipe" where
  "load_recipe st recipeId =
     (case getDoc st recipeId of
        Inl e \<Rightarrow> Inl e
      | Inr docSnap \<Rightarrow>
          (case (if \<not> snap_exists docSnap then notFound else Inr ()) of
             Inl e \<Rightarrow> Inl e
           | Inr u \<Rightarrow> Inr (mapRecipe_detail (snap_id docSnap) (snap_data docSnap))))"

text \<open>The client page wraps the body in \<^verbatim>\<open>try\<close>/\<^verbatim>\<open>catch\<close>/\<^verbatim>\<open>finally\<close>: whatever is
  thrown inside, the signal of \<^verbatim>\<open>notFound()\<close> included, ends in the \<^verbatim>\<open>catch\<close>.\<close>

definition fetchRecipe :: "store \<Rightarrow> string \<Rightarrow> DetailPage \<Rightarrow> DetailPage" where
  "fetchRecipe st recipeId s =
     (case load_recipe st recipeId of
        Inl e \<Rightarrow> s\<lparr> dp_error := Some ''Failed to load recipe.'', dp_loading := False \<rparr>
      | Inr fetchedRecipe \<Rightarrow> s\<lparr> dp_recipe := Some fetchedRecipe, dp_loading := False \<rparr>)"

subsection \<open>The markup of the detail view\<close>

text \<open>
  Both versions of the page build the same markup from the recipe, and the markup reads
  the recipe's fields as if they had the types of the \<^verbatim>\<open>Recipe\<close> interface: it calls
  \<^verbatim>\<open>.length\<close> and \<^verbatim>\<open>.map\<close> on the three lists and \<^verbatim>\<open>.toDate()\<close> on \<open>createdAt\<close>, and
  it places field values as children of elements. On a value of another type these
  throw, and what is thrown leaves the component. The operations involved:
\<close>

text \<open>\<^verbatim>\<open>v.k\<close> for a property \<open>k\<close> that only a stored map can have (\<open>quantity\<close>, \<open>unit\<close>,
  \<open>name\<close>): a TypeError on null and undefined, the entry of a map, undefined
  otherwise.\<close>

definition js_member :: "jsval \<Rightarrow> string \<Rightarrow> exn + jsval" where
  "js_member v k =
     (case v of
        JUndefined \<Rightarrow> Inl TypeError
      | JNull \<Rightarrow> Inl TypeError
      | JObj kvs \<Rightarrow> Inr (case map_of kvs k of None \<Rightarrow> JUndefined | Some x \<Rightarrow> x)
      | _ \<Rightarrow> Inr JUndefined)"

text \<open>\<^verbatim>\<open>v.length\<close>: the number of code units of a string and of elements of an array, the
  entry \<open>length\<close> of a map if it has one, undefined on the other values.\<close>

definition js_length :: "jsval \<Rightarrow> exn + jsval" where
  "js_length v =
     (case v of
        JUndefined \<Rightarrow> Inl TypeError
      | JNull \<Rightarrow> Inl TypeError
      | JStr s \<Rightarrow> Inr (JNum (Num (of_nat (length s))))
      | JArr xs \<Rightarrow> Inr (JNum (Num (of_nat (length xs))))
      | JObj kvs \<Rightarrow> Inr (case map_of kvs ''length'' of None \<Rightarrow> JUndefined | Some x \<Rightarrow> x)
      | _ \<Rightarrow> Inr JUndefined)"

text \<open>
  What the page takes from the run-time system and the framework without the repository
  saying what it is: the conversion to a number of a string or an object (which \<^verbatim>\<open>>\<close>
  applies to an operand that is neither a number, a boolean, null nor undefined), and
  whether the \<^verbatim>\<open>Image\<close> component of \<^verbatim>\<open>next/image\<close> renders for a given \<^verbatim>\<open>src\<close> and
  \<^verbatim>\<open>alt\<close> or throws. Every statement below holds for each such run-time system.
\<close>

record runtime =
  rt_ToNumber :: "jsval \<Rightarrow> number"
  rt_Image :: "jsval \<Rightarrow> jsval \<Rightarrow> bool"

fun ToNumber :: "runtime \<Rightarrow> jsval \<Rightarrow> number" where
  "ToNumber rt JUndefined = NaN"
| "ToNumber rt JNull = Num 0"
| "ToNumber rt (JBool b) = Num (if b then 1 else 0)"
| "ToNumber rt (JNum n) = n"
| "ToNumber rt v = rt_ToNumber rt v"

text \<open>\<^verbatim>\<open>v > 0\<close>.\<close>

definition js_gt_zero :: "runtime \<Rightarrow> jsval \<Rightarrow> bool" where
  "js_gt_zero rt v = num_positive (ToNumber rt v)"

text \<open>The results of a list of evaluations made in order: the first exception ends them.\<close>

fun collect :: "(exn + 'a) list \<Rightarrow> exn + 'a list" where
  "collect [] = Inr []"
| "collect (x # xs) =
     (case x of
        Inl e \<Rightarrow> Inl e
      | Inr y \<Rightarrow> (case collect xs of Inl e \<Rightarrow> Inl e | Inr ys \<Rightarrow> Inr (y # ys)))"

text \<open>\<^verbatim>\<open>v.map(f)\<close>: only an array has the method; calling it on anything else is a
  TypeError.\<close>

definition js_map :: "(jsval \<Rightarrow> exn + 'a) \<Rightarrow> jsval \<Rightarrow> exn + 'a list" where
  "js_map f v = (case v of JArr xs \<Rightarrow> collect (map f xs) | _ \<Rightarrow> Inl TypeError)"

text \<open>
  The pieces of the markup that evaluate something. Each gives the values it places as
  children of an element, or the exception it throws.

  \<^verbatim>\<open>{recipe.createdAt && (<span>... {recipe.createdAt.toDate().toLocaleDateString()}</span>)}\<close>:
  a falsy value is the child itself; otherwise the child is the text of the date.
\<close>

definition createdAt_line :: "jsval \<Rightarrow> exn + jsval list" where
  "createdAt_line c =
     (if truthy c then (case toDate c of Inl e \<Rightarrow> Inl e | Inr d \<Rightarrow> Inr []) else Inr [c])"

text \<open>The callback of the ingredient list: \<^verbatim>\<open>{ing.quantity} {ing.unit}\<close> and
  \<^verbatim>\<open>{ing.name}\<close>.\<close>

definition ingredient_item :: "jsval \<Rightarrow> exn + jsval list" where
  "ingredient_item ing =
     collect [js_member ing ''quantity'', js_member ing ''unit'', js_member ing ''name'']"

text \<open>The callback of the instruction list and of the category list: \<^verbatim>\<open>{step}\<close>,
  \<^verbatim>\<open>{category}\<close>.\<close>

definition plain_item :: "jsval \<Rightarrow> exn + jsval list" where
  "plain_item x = Inr [x]"

text \<open>\<^verbatim>\<open>xs.length === 0 ? (<p>...</p>) : (<ul>{xs.map(item)}</ul>)\<close>, for the ingredients
  and the instructions.\<close>

definition list_section :: "(jsval \<Rightarrow> exn + jsval list) \<Rightarrow> jsval \<Rightarrow> exn + jsval list" where
  "list_section item xs =
     (case js_length xs of
        Inl e \<Rightarrow> Inl e
      | Inr n \<Rightarrow>
          if n = JNum (Num 0) then Inr []
          else (case js_map item xs of Inl e \<Rightarrow> Inl e | Inr cs \<Rightarrow> Inr (concat cs)))"

text \<open>\<^verbatim>\<open>{recipe.categories && recipe.categories.length > 0 && (... categories.map ...)}\<close>.\<close>

definition categories_section :: "runtime \<Rightarrow> jsval \<Rightarrow> exn + jsval list" where
  "categories_section rt cats =
     (if \<not> truthy cats then Inr [cats]
      else case js_length cats of
        Inl e \<Rightarrow> Inl e
      | Inr n \<Rightarrow>
          if js_gt_zero rt n
          then (case js_map plain_item cats of Inl e \<Rightarrow> Inl e | Inr cs \<Rightarrow> Inr (concat cs))
          else Inr [JBool False])"

text \<open>The markup from top to bottom, as the values placed as children: the image (a
  falsy \<open>imageUrl\<close> is a child itself), the name, servings and cooking time, the date,
  the three lists, the user id.\<close>

definition detail_markup :: "runtime \<Rightarrow> jsval Recipe \<Rightarrow> exn + jsval list" where
  "detail_markup rt recipe =
     (case collect
        [Inr (if truthy (r_imageUrl recipe) then [] else [r_imageUrl recipe]),
         Inr [r_name recipe],
         Inr [r_servings recipe, r_cookingTime recipe],
         createdAt_line (r_createdAt recipe),
         list_section ingredient_item (r_ingredients recipe),
         list_section plain_item (r_instructions recipe),
         categories_section rt (r_categories recipe),
         Inr [r_userId recipe]] of
        Inl e \<Rightarrow> Inl e
      | Inr cs \<Rightarrow> Inr (concat cs))"

text \<open>React renders a string, a number, a boolean, null and undefined as a child, and an
  array of such; an object as a child (a stored map, a timestamp) makes it throw.\<close>

fun react_child :: "jsval \<Rightarrow> bool" and react_children :: "jsval list \<Rightarrow> bool" where
  "react_child JUndefined = True"
| "react_child JNull = True"
| "react_child (JBool b) = True"
| "react_child (JNum n) = True"
| "react_child (JStr s) = True"
| "react_child (JTimestamp t) = False"
| "react_child (JArr xs) = react_children xs"
| "react_child (JObj kvs) = False"
| "react_children [] = True"
| "react_children (x # xs) = (react_child x \<and> react_children xs)"

text \<open>Rendering the detail view of a recipe: the component builds the markup, then React
  renders it, the image included when there is one.\<close>

definition render_detail :: "runtime \<Rightarrow> jsval Recipe \<Rightarrow> exn + unit" where
  "render_detail rt recipe =
     (case detail_markup rt recipe of
        Inl e \<Rightarrow> Inl e
      | Inr cs \<Rightarrow>
          if react_children cs \<and>
             (if truthy (r_imageUrl recipe) then rt_Image rt (r_imageUrl recipe) (r_name recipe)
              else True)
          then Inr ()
          else Inl RenderError)"

text \<open>The server page has no handler: what is thrown, by the read or by the markup,
  leaves the component. Otherwise the recipe is shown.\<close>

definition RecipeDetailPage_server :: "runtime \<Rightarrow> store \<Rightarrow> string \<Rightarrow> exn + jsval Recipe" where
  "RecipeDetailPage_server rt st recipeId =
     (case load_recipe st recipeId of
        Inl e \<Rightarrow> Inl e
      | Inr recipe \<Rightarrow>
          (case render_detail rt recipe of Inl e \<Rightarrow> Inl e | Inr u \<Rightarrow> Inr recipe))"

text \<open>\<^verbatim>\<open>currentUser && currentUser.uid === recipe.userId\<close>: the strict comparison of a
  string with a stored value holds for a string value with the same characters only.\<close>

definition isOwner :: "User option \<Rightarrow> jsval Recipe \<Rightarrow> bool" where
  "isOwner user recipe =
     (case user of None \<Rightarrow> False | Some u \<Rightarrow> JStr (uid u) = r_userId recipe)"

text \<open>What the client page renders. Of the detail view only the recipe shown and the
  presence of the ``Edit Recipe'' link are kept. The three early returns come first;
  the detail view is there only if rendering it does not throw.\<close>

datatype detail_view =
    LoadingView
  | ErrorView string
  | NoView
  | RecipeView "jsval Recipe" bool

definition detail_or_nothing ::
  "runtime \<Rightarrow> jsval Recipe option \<Rightarrow> User option \<Rightarrow> exn + detail_view" where
  "detail_or_nothing rt shown user =
     (case shown of
        None \<Rightarrow> Inr NoView
      | Some recipe \<Rightarrow>
          (case render_detail rt recipe of
             Inl e \<Rightarrow> Inl e
           | Inr u \<Rightarrow> Inr (RecipeView recipe (isOwner user recipe))))"

definition RecipeDetailPage_render ::
  "runtime \<Rightarrow> DetailPage \<Rightarrow> auth_state \<Rightarrow> exn + detail_view" where
  "RecipeDetailPage_render rt s a =
     (if dp_loading s \<or> loading a then Inr LoadingView
      else case dp_error s of
        Some msg \<Rightarrow>
          (if msg \<noteq> [] then Inr (ErrorView msg)
           else detail_or_nothing rt (dp_recipe s) (currentUser a))
      | None \<Rightarrow> detail_or_nothing rt (dp_recipe s) (currentUser a))"

text \<open>Whether the visitor sees the ``Edit Recipe'' link: not when the render threw.\<close>

fun edit_offered :: "exn + detail_view \<Rightarrow> bool" where
  "edit_offered (Inr (RecipeView recipe link)) = link"
| "edit_offered v = False"

section \<open>The recipe creation form\<close>

text \<open>
  A string is a list of \<^typ>\<open>char\<close>, one per code unit, which covers the code units
  below 256. \<^verbatim>\<open>String.prototype.trim\<close> removes white space and line terminators from
  both ends; in that range these are tab, line feed, vertical tab, form feed, carriage
  return, space and the no-break space.
\<close>

definition js_whitespace :: "char \<Rightarrow> bool" where
  "js_whitespace c = (of_char c \<in> {9, 10, 11, 12, 13, 32, 160 :: nat})"

definition trim :: "string \<Rightarrow> string" where
  "trim s = rev (dropWhile js_whitespace (rev (dropWhile js_whitespace s)))"

text \<open>\<^verbatim>\<open>s.split(',')\<close>: the pieces between the commas, the empty ones included; the empty
  string gives one empty piece.\<close>

fun split_comma :: "string \<Rightarrow> string list" where
  "split_comma [] = [[]]"
| "split_comma (c # cs) =
     (if c = CHR '','' then [] # split_comma cs
      else case split_comma cs of
        [] \<Rightarrow> [[c]]
      | piece # pieces \<Rightarrow> (c # piece) # pieces)"

record Ingredient =
  name :: string
  quantity :: number
  unit :: string

text \<open>The state of a number input, \<^verbatim>\<open>number | ''\<close>: still the empty string, or the number
  that \<^verbatim>\<open>Number(e.target.value)\<close> made of what was typed.\<close>

datatype num_input = Blank | Entered number

text \<open>\<^verbatim>\<open>Number(x)\<close> on such a state: the empty string converts to zero.\<close>

fun Number :: "num_input \<Rightarrow> number" where
  "Number Blank = Num 0"
| "Number (Entered n) = n"

text \<open>The state variables of \<^verbatim>\<open>AddRecipePage\<close> that hold the draft.\<close>

record form =
  recipeName :: string
  ingredients :: "Ingredient list"
  instructions :: "string list"
  cookingTime :: num_input
  servings :: num_input
  imageUrl :: string
  categories :: string

definition form_init :: form where
  "form_init =
     \<lparr> recipeName = [],
       ingredients = [\<lparr> name = [], quantity = Num 0, unit = [] \<rparr>],
       instructions = [[]],
       cookingTime = Blank,
       servings = Blank,
       imageUrl = [],
       categories = [] \<rparr>"

text \<open>\<^verbatim>\<open>RecipeFormData\<close>, the object handed to \<^verbatim>\<open>addDoc\<close>. An optional property that
  was not assigned is \<open>None\<close>.\<close>

record RecipeFormData =
  rd_name :: string
  rd_ingredients :: "Ingredient list"
  rd_instructions :: "string list"
  rd_cookingTime :: number
  rd_servings :: number
  rd_userId :: string
  rd_createdAt :: timestamp
  rd_imageUrl :: "string option"
  rd_categories :: "string list option"

text \<open>The condition of the ``Basic validation'' \<^verbatim>\<open>if\<close>: true when the draft is refused.\<close>

definition validation_fails :: "form \<Rightarrow> bool" where
  "validation_fails f =
     (recipeName f = [] \<or>
      list_ex (\<lambda>ing. name ing = [] \<or> \<not> num_truthy (quantity ing) \<or> unit ing = [])
        (ingredients f) \<or>
      list_ex (\<lambda>inst. inst = []) (instructions f) \<or>
      cookingTime f = Blank \<or>
      servings f = Blank)"

definition parsedCategories :: "string \<Rightarrow> string list" where
  "parsedCategories cats = filter (\<lambda>cat. cat \<noteq> []) (map trim (split_comma cats))"

text \<open>\<^verbatim>\<open>recipeData\<close> as it stands when \<^verbatim>\<open>addDoc\<close> is called: the literal, then the two
  conditional assignments. \<open>now\<close> is the value of \<^verbatim>\<open>Timestamp.now()\<close>.\<close>

definition recipeData :: "form \<Rightarrow> User \<Rightarrow> timestamp \<Rightarrow> RecipeFormData" where
  "recipeData f user now =
     \<lparr> rd_name = recipeName f,
       rd_ingredients =
         filter (\<lambda>ing. name ing \<noteq> [] \<and> num_truthy (quantity ing) \<and> unit ing \<noteq> [])
           (ingredients f),
       rd_instructions = filter (\<lambda>inst. trim inst \<noteq> []) (instructions f),
       rd_cookingTime = Number (cookingTime f),
       rd_servings = Number (servings f),
       rd_userId = uid user,
       rd_createdAt = now,
       rd_imageUrl = (if trim (imageUrl f) \<noteq> [] then Some (trim (imageUrl f)) else None),
       rd_categories =
         (if length (parsedCategories (categories f)) > 0
          then Some (parsedCategories (categories f)) else None) \<rparr>"

text \<open>
  What a run of \<^verbatim>\<open>handleSubmit\<close> leaves behind: the draft, the three status variables,
  the \<^verbatim>\<open>addDoc\<close> calls it made (collection and document) and the routes it pushed.
\<close>

record submit_result =
  sr_form :: form
  sr_loading :: bool
  sr_error :: "string option"
  sr_success :: "string option"
  sr_inserts :: "(string \<times> RecipeFormData) list"
  sr_pushed :: "string list"

definition validation_message :: string where
  "validation_message =
     ''Please fill in all required fields, including all ingredients and instruction details.''"

text \<open>\<^verbatim>\<open>handleSubmit\<close>. \<open>accepted\<close> says whether the store resolves the \<^verbatim>\<open>addDoc\<close>.\<close>

definition handleSubmit :: "form \<Rightarrow> User \<Rightarrow> timestamp \<Rightarrow> bool \<Rightarrow> submit_result" where
  "handleSubmit f user now accepted =
     (if validation_fails f
      then \<lparr> sr_form = f, sr_loading = False, sr_error = Some validation_message,
             sr_success = None, sr_inserts = [], sr_pushed = [] \<rparr>
      else if accepted
      then \<lparr> sr_form = form_init, sr_loading = False, sr_error = None,
             sr_success = Some ''Recipe added successfully!'',
             sr_inserts = [(''recipes'', recipeData f user now)],
             sr_pushed = [''/recipes''] \<rparr>
      else \<lparr> sr_form = f, sr_loading = False,
             sr_error = Some ''Failed to add recipe. Please try again.'',
             sr_success = None,
             sr_inserts = [(''recipes'', recipeData f user now)],
             sr_pushed = [] \<rparr>)"

text \<open>The specification's validation error of \<open>create\<close>, read off the result: the
  validation message is shown and no insert was made.\<close>

definition ValidationError :: "submit_result \<Rightarrow> bool" where
  "ValidationError r = (sr_error r = Some validation_message \<and> sr_inserts r = [])"

section \<open>Notions of the specification\<close>

text \<open>The required-field constraints in the specification's words: name non-empty, every
  ingredient with non-empty name and unit and quantity above zero, every instruction
  step non-empty after trimming, cooking time and servings present.\<close>

definition spec_required_fields :: "form \<Rightarrow> bool" where
  "spec_required_fields f =
     (recipeName f \<noteq> [] \<and>
      list_all (\<lambda>ing. name ing \<noteq> [] \<and> unit ing \<noteq> [] \<and> num_positive (quantity ing))
        (ingredients f) \<and>
      list_all (\<lambda>inst. trim inst \<noteq> []) (instructions f) \<and>
      cookingTime f \<noteq> Blank \<and>
      servings f \<noteq> Blank)"

text \<open>No field of a recipe but \<open>createdAt\<close> is null or undefined.\<close>

definition populated :: "'c Recipe \<Rightarrow> bool" where
  "populated r =
     (\<not> nullish (r_name r) \<and> \<not> nullish (r_ingredients r) \<and> \<not> nullish (r_instructions r) \<and>
      \<not> nullish (r_cookingTime r) \<and> \<not> nullish (r_servings r) \<and> \<not> nullish (r_userId r) \<and>
      \<not> nullish (r_imageUrl r) \<and> \<not> nullish (r_categories r))"

text \<open>
  The document equivalent to a recipe: the document that holds the recipe's fields under
  their names. An undefined \<open>createdAt\<close> is an absent field. The list page holds
  \<open>createdAt\<close> as a \<^verbatim>\<open>Date\<close>, which no document contains: the store keeps a date as
  the \<^verbatim>\<open>Timestamp\<close> of that date.
\<close>

definition document_of :: "jsval Recipe \<Rightarrow> document" where
  "document_of r =
     (let d = [''name'' \<mapsto> r_name r, ''ingredients'' \<mapsto> r_ingredients r,
               ''instructions'' \<mapsto> r_instructions r, ''cookingTime'' \<mapsto> r_cookingTime r,
               ''servings'' \<mapsto> r_servings r, ''userId'' \<mapsto> r_userId r,
               ''imageUrl'' \<mapsto> r_imageUrl r, ''categories'' \<mapsto> r_categories r]
      in if r_createdAt r = JUndefined then d else d(''createdAt'' \<mapsto> r_createdAt r))"

definition stored_date :: "date option \<Rightarrow> jsval" where
  "stored_date c = (case c of None \<Rightarrow> JUndefined | Some d \<Rightarrow> JTimestamp (Timestamp_fromDate d))"

definition document_of_listed :: "date option Recipe \<Rightarrow> document" where
  "document_of_listed r =
     document_of
       \<lparr> r_id = r_id r, r_name = r_name r, r_ingredients = r_ingredients r,
         r_instructions = r_instructions r, r_cookingTime = r_cookingTime r,
         r_servings = r_servings r, r_userId = r_userId r, r_imageUrl = r_imageUrl r,
         r_categories = r_categories r, r_createdAt = stored_date (r_createdAt r) \<rparr>"

text \<open>The fields that the mapper reads.\<close>

definition recipe_fields :: "string list" where
  "recipe_fields =
     [''name'', ''ingredients'', ''instructions'', ''cookingTime'', ''servings'', ''userId'',
      ''imageUrl'', ''categories'', ''createdAt'']"

text \<open>The documented defaults: a field that the document lacks holds its default in the
  recipe.\<close>

definition defaults_filled :: "document \<Rightarrow> 'c Recipe \<Rightarrow> bool" where
  "defaults_filled data r =
     ((data ''name'' = None \<longrightarrow> r_name r = JStr ''Untitled Recipe'') \<and>
      (data ''ingredients'' = None \<longrightarrow> r_ingredients r = JArr []) \<and>
      (data ''instructions'' = None \<longrightarrow> r_instructions r = JArr []) \<and>
      (data ''cookingTime'' = None \<longrightarrow> r_cookingTime r = JNum (Num 0)) \<and>
      (data ''servings'' = None \<longrightarrow> r_servings r = JNum (Num 0)) \<and>
      (data ''userId'' = None \<longrightarrow> r_userId r = JStr ''unknown'') \<and>
      (data ''imageUrl'' = None \<longrightarrow> r_imageUrl r = JStr []) \<and>
      (data ''categories'' = None \<longrightarrow> r_categories r = JArr []))"

text \<open>A recipe whose fields have the types that the \<^verbatim>\<open>Recipe\<close> interface declares:
  strings, numbers, an array of ingredient maps, arrays of strings, and a timestamp or
  nothing for \<open>createdAt\<close>.\<close>

fun typed_string :: "jsval \<Rightarrow> bool" where
  "typed_string (JStr s) = True"
| "typed_string v = False"

fun typed_number :: "jsval \<Rightarrow> bool" where
  "typed_number (JNum n) = True"
| "typed_number v = False"

fun typed_ingredient :: "jsval \<Rightarrow> bool" where
  "typed_ingredient (JObj kvs) =
     ((case map_of kvs ''name'' of Some v \<Rightarrow> typed_string v | None \<Rightarrow> False) \<and>
      (case map_of kvs ''quantity'' of Some v \<Rightarrow> typed_number v | None \<Rightarrow> False) \<and>
      (case map_of kvs ''unit'' of Some v \<Rightarrow> typed_string v | None \<Rightarrow> False))"
| "typed_ingredient v = False"

fun typed_array :: "(jsval \<Rightarrow> bool) \<Rightarrow> jsval \<Rightarrow> bool" where
  "typed_array p (JArr xs) = list_all p xs"
| "typed_array p v = False"

fun typed_created :: "jsval \<Rightarrow> bool" where
  "typed_created JUndefined = True"
| "typed_created (JTimestamp t) = True"
| "typed_created v = False"

definition well_typed :: "jsval Recipe \<Rightarrow> bool" where
  "well_typed r =
     (typed_string (r_name r) \<and> typed_array typed_ingredient (r_ingredients r) \<and>
      typed_array typed_string (r_instructions r) \<and> typed_number (r_cookingTime r) \<and>
      typed_number (r_servings r) \<and> typed_string (r_userId r) \<and>
      typed_string (r_imageUrl r) \<and> typed_array typed_string (r_categories r) \<and>
      typed_created (r_createdAt r))"

section \<open>Example inputs\<close>

definition alice :: User where
  "alice = \<lparr> uid = ''u1'', email = ''a@b.com'' \<rparr>"

definition draft_salt :: form where
  "draft_salt =
     \<lparr> recipeName = ''Soup'',
       ingredients = [\<lparr> name = ''Salt'', quantity = Num 5, unit = ''g'' \<rparr>],
       instructions = [''Boil''],
       cookingTime = Entered (Num 10),
       servings = Entered (Num 2),
       imageUrl = '' '',
       categories = '' , '' \<rparr>"

definition draft_zero :: form where
  "draft_zero =
     draft_salt\<lparr> ingredients := [\<lparr> name = ''Salt'', quantity = Num 0, unit = ''g'' \<rparr>] \<rparr>"

definition draft_blank_step :: form where
  "draft_blank_step = draft_salt\<lparr> instructions := [''  ''] \<rparr>"

definition draft_negative :: form where
  "draft_negative =
     draft_salt\<lparr> ingredients := [\<lparr> name = ''Salt'', quantity = Num (- 1), unit = ''g'' \<rparr>] \<rparr>"

definition doc_soup :: document where
  "doc_soup = [''name'' \<mapsto> JStr ''Soup'']"

definition doc_dated :: document where
  "doc_dated =
     [''name'' \<mapsto> JStr [], ''userId'' \<mapsto> JStr [], ''cookingTime'' \<mapsto> JNum (Num 0),
      ''servings'' \<mapsto> JNull, ''createdAt'' \<mapsto> JTimestamp (Timestamp 7 1500000)]"

definition store_soup :: store where
  "store_soup =
     \<lparr> st_recipes = [(''r1'', [''name'' \<mapsto> JStr ''Soup'', ''userId'' \<mapsto> JStr ''u1''])],
       st_reachable = True \<rparr>"

definition store_yesterday :: store where
  "store_yesterday =
     \<lparr> st_recipes =
         [(''r2'', [''name'' \<mapsto> JStr ''Stew'', ''userId'' \<mapsto> JStr ''u1'',
                    ''createdAt'' \<mapsto> JStr ''yesterday''])],
       st_reachable = True \<rparr>"

definition runtime_plain :: runtime where
  "runtime_plain = \<lparr> rt_ToNumber = (\<lambda>v. NaN), rt_Image = (\<lambda>src alt. True) \<rparr>"

definition world_init :: world where
  "world_init = \<lparr> w_session = None, w_users = Map.empty, w_console = [] \<rparr>"

section \<open>Properties of the JavaScript operators\<close>

lemma js_or_not_nullish: "\<not> nullish b \<Longrightarrow> \<not> nullish (js_or a b)"
  by (cases a) (simp_all add: js_or_def)

lemma js_coalesce_not_nullish: "\<not> nullish b \<Longrightarrow> \<not> nullish (js_coalesce a b)"
  by (simp add: js_coalesce_def)

lemma js_or_falsy: "\<not> truthy a \<Longrightarrow> js_or a b = b"
  by (simp add: js_or_def)

lemma js_or_truthy: "truthy a \<Longrightarrow> js_or a b = a"
  by (simp add: js_or_def)

lemma js_or_idem: "js_or (js_or a b) b = js_or a b"
  by (simp add: js_or_def)

lemma js_coalesce_idem: "\<not> nullish b \<Longrightarrow> js_coalesce (js_coalesce a b) b = js_coalesce a b"
  by (simp add: js_coalesce_def)

lemma js_get_absent: "data k = None \<Longrightarrow> js_get data k = JUndefined"
  by (simp add: js_get_def)

lemma js_get_present: "data k = Some v \<Longrightarrow> js_get data k = v"
  by (simp add: js_get_def)

text \<open>A date survives the store: written as a timestamp and read back, it is the same
  date (the other direction loses the nanoseconds below a millisecond).\<close>

lemma toDate_fromDate: "Timestamp_toDate (Timestamp_fromDate d) = d"
proof (cases d)
  case (Date m)
  have "(m div 1000) * 1000000000 + (m mod 1000) * 1000000 = m * 1000000"
    by presburger
  moreover have "sgn (m * 1000000) * (\<bar>m * 1000000\<bar> div 1000000) = m"
    by (simp add: abs_mult sgn_mult mult_sgn_abs)
  ultimately show ?thesis
    using Date by (simp add: Timestamp_toDate_def Timestamp_fromDate_def)
qed

section \<open>The record mapper\<close>

text \<open>The guard \<^verbatim>\<open>instanceof Timestamp\<close> keeps \<^verbatim>\<open>toDate()\<close> from throwing.\<close>

lemma created_total:
  "(if instanceof_Timestamp v then map_sum id Some (toDate v) else Inr None) =
     Inr (case v of JTimestamp t \<Rightarrow> Some (Timestamp_toDate t) | _ \<Rightarrow> None)"
  by (cases v) (simp_all add: instanceof_Timestamp_def toDate_def)

lemma mapRecipe_list_Inr:
  "mapRecipe_list doc_id data =
     Inr \<lparr> r_id = doc_id,
           r_name = js_or (js_get data ''name'') (JStr ''Untitled Recipe''),
           r_ingredients = js_or (js_get data ''ingredients'') (JArr []),
           r_instructions = js_or (js_get data ''instructions'') (JArr []),
           r_cookingTime = js_coalesce (js_get data ''cookingTime'') (JNum (Num 0)),
           r_servings = js_coalesce (js_get data ''servings'') (JNum (Num 0)),
           r_userId = js_or (js_get data ''userId'') (JStr ''unknown''),
           r_imageUrl = js_or (js_get data ''imageUrl'') (JStr ''''),
           r_categories = js_or (js_get data ''categories'') (JArr []),
           r_createdAt = (case js_get data ''createdAt'' of
                            JTimestamp t \<Rightarrow> Some (Timestamp_toDate t) | _ \<Rightarrow> None) \<rparr>"
  unfolding mapRecipe_list_def created_total by simp

lemma populated_list:
  "mapRecipe_list doc_id data = Inr r \<Longrightarrow> populated r"
  unfolding mapRecipe_list_Inr
  by (auto simp add: populated_def js_or_not_nullish js_coalesce_not_nullish)

lemma populated_detail: "populated (mapRecipe_detail doc_id odata)"
  by (simp add: populated_def mapRecipe_detail_def js_or_not_nullish js_coalesce_not_nullish)

lemma defaults_list:
  "mapRecipe_list doc_id data = Inr r \<Longrightarrow> defaults_filled data r"
  unfolding mapRecipe_list_Inr
  by (auto simp add: defaults_filled_def js_get_absent js_or_falsy js_coalesce_def)

lemma defaults_detail:
  "defaults_filled (case odata of None \<Rightarrow> Map.empty | Some d \<Rightarrow> d)
     (mapRecipe_detail doc_id odata)"
  by (cases odata)
    (simp_all add: defaults_filled_def mapRecipe_detail_def js_opt_get_def js_get_absent
      js_or_falsy js_coalesce_def)

text \<open>The pages apply the mapper to every snapshot they read: the list page to each
  document of the scan, the detail page to the one it fetched.\<close>

lemma map_docs_Inr:
  "map_docs docs = Inr (map (\<lambda>d. projr (mapRecipe_list (fst d) (snd d))) docs)"
  by (induction docs) (simp_all add: mapRecipe_list_Inr)

lemma fetchRecipes_reachable:
  "st_reachable st \<Longrightarrow>
     fetchRecipes st s =
       s\<lparr> rp_recipes := map (\<lambda>d. projr (mapRecipe_list (fst d) (snd d))) (st_recipes st),
          rp_loading := False \<rparr>"
  by (simp add: fetchRecipes_def getDocs_def map_docs_Inr)

lemma fetchRecipes_populated:
  "list_all populated (rp_recipes (fetchRecipes st RecipesPage_init))"
proof (cases "st_reachable st")
  case True
  have "populated (projr (mapRecipe_list i d))" for i d
    using populated_list [of i d] by (simp add: mapRecipe_list_Inr)
  then show ?thesis
    using True by (simp add: fetchRecipes_reachable list_all_iff)
next
  case False
  then show ?thesis
    by (simp add: fetchRecipes_def getDocs_def RecipesPage_init_def)
qed

lemma fetchRecipes_defaults:
  "st_reachable st \<Longrightarrow>
     list_all2 (\<lambda>d r. r_id r = fst d \<and> defaults_filled (snd d) r \<and> populated r)
       (st_recipes st) (rp_recipes (fetchRecipes st s))"
proof -
  assume up: "st_reachable st"
  have "r_id (projr (mapRecipe_list i d)) = i \<and>
      defaults_filled d (projr (mapRecipe_list i d)) \<and>
      populated (projr (mapRecipe_list i d))" for i d
    using defaults_list [of i d] populated_list [of i d] by (simp add: mapRecipe_list_Inr)
  then show ?thesis
    by (simp add: fetchRecipes_reachable [OF up] list_all2_map2 list_all2_same)
qed

lemma load_recipe_found:
  "load_recipe st recipeId = Inr r \<Longrightarrow>
     st_reachable st \<and>
     (\<exists>data. map_of (st_recipes st) recipeId = Some data \<and>
        r = mapRecipe_detail recipeId (Some data))"
  by (auto simp add: load_recipe_def getDoc_def snap_exists_def notFound_def split: if_splits)

lemma load_recipe_defaults:
  "load_recipe st recipeId = Inr r \<Longrightarrow>
     \<exists>data. map_of (st_recipes st) recipeId = Some data \<and> r_id r = recipeId \<and>
       defaults_filled data r \<and> populated r"
proof -
  assume "load_recipe st recipeId = Inr r"
  then obtain data where data: "map_of (st_recipes st) recipeId = Some data"
    and r: "r = mapRecipe_detail recipeId (Some data)"
    using load_recipe_found by blast
  have "r_id r = recipeId"
    by (simp add: r mapRecipe_detail_def)
  moreover have "defaults_filled data r"
    using defaults_detail [of "Some data" recipeId] by (simp add: r)
  moreover have "populated r"
    by (simp add: r populated_detail)
  ultimately show ?thesis
    using data by blast
qed

text \<open>
  Claim C2. Whatever document the list page or the detail page reads, the recipe built
  from it holds the documented default in every field that the document lacks (name
  ``Untitled Recipe'', ingredients, instructions and categories the empty array, cooking
  time and servings zero, user id ``unknown'', image URL the empty string), and none of
  its fields except \<open>createdAt\<close> is null or undefined. This holds of every recipe that
  the list page shows after a scan of the store, document by document, and of the
  recipe that the detail page loads by id.
\<close>

theorem mapper_defaults:
  "(\<exists>r. mapRecipe_list doc_id data = Inr r \<and> r_id r = doc_id \<and>
        defaults_filled data r \<and> populated r) \<and>
   defaults_filled (case odata of None \<Rightarrow> Map.empty | Some d \<Rightarrow> d)
     (mapRecipe_detail doc_id odata) \<and>
   populated (mapRecipe_detail doc_id odata) \<and>
   (st_reachable st \<longrightarrow>
      list_all2 (\<lambda>d r. r_id r = fst d \<and> defaults_filled (snd d) r \<and> populated r)
        (st_recipes st) (rp_recipes (fetchRecipes st s))) \<and>
   (\<forall>r'. load_recipe st recipeId = Inr r' \<longrightarrow>
      (\<exists>data'. map_of (st_recipes st) recipeId = Some data' \<and> r_id r' = recipeId \<and>
         defaults_filled data' r' \<and> populated r'))"
proof -
  obtain r where r: "mapRecipe_list doc_id data = Inr r"
    by (simp add: mapRecipe_list_Inr)
  then have "r_id r = doc_id"
    by (auto simp add: mapRecipe_list_Inr)
  with r have "\<exists>r. mapRecipe_list doc_id data = Inr r \<and> r_id r = doc_id \<and>
        defaults_filled data r \<and> populated r"
    using defaults_list [OF r] populated_list [OF r] by blast
  then show ?thesis
    using defaults_detail [of odata doc_id] populated_detail [of doc_id odata]
      fetchRecipes_defaults [of st s] load_recipe_defaults [of st recipeId]
    by blast
qed

theorem mapper_defaults_witness:
  "mapRecipe_list ''r1'' doc_soup =
     Inr \<lparr> r_id = ''r1'', r_name = JStr ''Soup'', r_ingredients = JArr [],
           r_instructions = JArr [], r_cookingTime = JNum (Num 0),
           r_servings = JNum (Num 0), r_userId = JStr ''unknown'',
           r_imageUrl = JStr [], r_categories = JArr [], r_createdAt = None \<rparr> \<and>
   r_userId (mapRecipe_detail ''r1'' None) = JStr ''unknown''"
proof -
  obtain r where r: "mapRecipe_list ''r1'' doc_soup = Inr r" "r_id r = ''r1''"
    "defaults_filled doc_soup r"
    and d: "defaults_filled Map.empty (mapRecipe_detail ''r1'' None :: jsval Recipe)"
    using mapper_defaults [of "''r1''" doc_soup None store_soup RecipesPage_init "''r1''"]
    by auto
  have "r_name r = JStr ''Soup''" "r_createdAt r = None"
    using r(1) by (auto simp add: mapRecipe_list_Inr doc_soup_def js_get_def js_or_def)
  moreover have "r_ingredients r = JArr []" "r_instructions r = JArr []"
    "r_cookingTime r = JNum (Num 0)" "r_servings r = JNum (Num 0)"
    "r_userId r = JStr ''unknown''" "r_imageUrl r = JStr []" "r_categories r = JArr []"
    using r(3) by (simp_all add: defaults_filled_def doc_soup_def)
  ultimately have "r = \<lparr> r_id = ''r1'', r_name = JStr ''Soup'', r_ingredients = JArr [],
           r_instructions = JArr [], r_cookingTime = JNum (Num 0),
           r_servings = JNum (Num 0), r_userId = JStr ''unknown'',
           r_imageUrl = JStr [], r_categories = JArr [], r_createdAt = None \<rparr>"
    using r(2) by (cases r) simp
  moreover have "r_userId (mapRecipe_detail ''r1'' None) = JStr ''unknown''"
    using d by (simp add: defaults_filled_def)
  ultimately show ?thesis
    using r(1) by simp
qed

text \<open>
  Claim C7. The mapper is a function of the snapshot's id and data alone (it takes no
  store and no clock), and it never throws: on every document, whatever is missing or
  ill-typed in it, the list page's mapper returns a recipe, the only call that could
  throw (\<^verbatim>\<open>toDate()\<close>) being guarded, and the detail page's mapper tolerates even
  undefined data. The recipe is fully populated, and an absent array is the empty array.
\<close>

theorem mapper_total:
  "(\<exists>r. mapRecipe_list doc_id data = Inr r \<and> populated r \<and>
        (data ''ingredients'' = None \<longrightarrow> r_ingredients r = JArr []) \<and>
        (data ''instructions'' = None \<longrightarrow> r_instructions r = JArr []) \<and>
        (data ''categories'' = None \<longrightarrow> r_categories r = JArr [])) \<and>
   populated (mapRecipe_detail doc_id (Some data)) \<and>
   (data ''ingredients'' = None \<longrightarrow>
      r_ingredients (mapRecipe_detail doc_id (Some data)) = JArr []) \<and>
   (data ''instructions'' = None \<longrightarrow>
      r_instructions (mapRecipe_detail doc_id (Some data)) = JArr []) \<and>
   (data ''categories'' = None \<longrightarrow>
      r_categories (mapRecipe_detail doc_id (Some data)) = JArr []) \<and>
   populated (mapRecipe_detail doc_id None) \<and>
   r_ingredients (mapRecipe_detail doc_id None) = JArr [] \<and>
   r_instructions (mapRecipe_detail doc_id None) = JArr [] \<and>
   r_categories (mapRecipe_detail doc_id None) = JArr []"
proof -
  have list: "\<exists>r. mapRecipe_list doc_id data = Inr r \<and> populated r \<and>
        (data ''ingredients'' = None \<longrightarrow> r_ingredients r = JArr []) \<and>
        (data ''instructions'' = None \<longrightarrow> r_instructions r = JArr []) \<and>
        (data ''categories'' = None \<longrightarrow> r_categories r = JArr [])"
    unfolding mapRecipe_list_Inr
    by (simp add: populated_def js_or_not_nullish js_coalesce_not_nullish js_get_absent
        js_or_falsy)
  have some: "(data ''ingredients'' = None \<longrightarrow>
      r_ingredients (mapRecipe_detail doc_id (Some data)) = JArr []) \<and>
   (data ''instructions'' = None \<longrightarrow>
      r_instructions (mapRecipe_detail doc_id (Some data)) = JArr []) \<and>
   (data ''categories'' = None \<longrightarrow>
      r_categories (mapRecipe_detail doc_id (Some data)) = JArr [])"
    by (simp add: mapRecipe_detail_def js_opt_get_def js_get_absent js_or_falsy)
  have none: "r_ingredients (mapRecipe_detail doc_id None) = JArr [] \<and>
   r_instructions (mapRecipe_detail doc_id None) = JArr [] \<and>
   r_categories (mapRecipe_detail doc_id None) = JArr []"
    by (simp add: mapRecipe_detail_def js_opt_get_def js_or_falsy)
  show ?thesis
    using list some none populated_detail [of doc_id "Some data"]
      populated_detail [of doc_id None]
    by blast
qed

theorem mapper_total_witness:
  "(\<exists>r. mapRecipe_list ''r1'' doc_soup = Inr r \<and> populated r \<and>
        r_ingredients r = JArr [] \<and> r_instructions r = JArr [] \<and>
        r_categories r = JArr []) \<and>
   r_ingredients (mapRecipe_detail ''r1'' (Some doc_soup)) = JArr [] \<and>
   r_instructions (mapRecipe_detail ''r1'' (Some doc_soup)) = JArr [] \<and>
   r_categories (mapRecipe_detail ''r1'' (Some doc_soup)) = JArr []"
proof -
  have absent: "doc_soup ''ingredients'' = None" "doc_soup ''instructions'' = None"
    "doc_soup ''categories'' = None"
    by (simp_all add: doc_soup_def)
  show ?thesis
    using mapper_total [of "''r1''" doc_soup] absent by simp
qed

text \<open>
  Claim C10. The string fields are defaulted with \<^verbatim>\<open>||\<close>: a stored name or user id
  that is falsy, the empty string in particular, is replaced by ``Untitled Recipe'' and
  ``unknown'', and a truthy one is kept. The numeric fields are defaulted with
  \<^verbatim>\<open>??\<close>: only an absent or null cooking time or servings becomes zero, and every other
  stored value is kept, a stored zero as zero.
\<close>

theorem mapper_falsy_defaults:
  "\<exists>r. mapRecipe_list doc_id data = Inr r \<and>
      r_name r = (if truthy (js_get data ''name'') then js_get data ''name''
                  else JStr ''Untitled Recipe'') \<and>
      r_userId r = (if truthy (js_get data ''userId'') then js_get data ''userId''
                    else JStr ''unknown'') \<and>
      r_cookingTime r = (if js_get data ''cookingTime'' \<in> {JUndefined, JNull}
                         then JNum (Num 0) else js_get data ''cookingTime'') \<and>
      r_servings r = (if js_get data ''servings'' \<in> {JUndefined, JNull}
                      then JNum (Num 0) else js_get data ''servings'') \<and>
      r_name (mapRecipe_detail doc_id (Some data)) = r_name r \<and>
      r_userId (mapRecipe_detail doc_id (Some data)) = r_userId r \<and>
      r_cookingTime (mapRecipe_detail doc_id (Some data)) = r_cookingTime r \<and>
      r_servings (mapRecipe_detail doc_id (Some data)) = r_servings r"
proof -
  have "js_coalesce v d = (if v \<in> {JUndefined, JNull} then d else v)" for v d
    by (cases v) (simp_all add: js_coalesce_def)
  then show ?thesis
    unfolding mapRecipe_list_Inr
    by (simp add: mapRecipe_detail_def js_opt_get_def js_or_def)
qed

theorem mapper_falsy_defaults_witness:
  "\<exists>r. mapRecipe_list ''r2'' doc_dated = Inr r \<and>
      r_name r = JStr ''Untitled Recipe'' \<and> r_userId r = JStr ''unknown'' \<and>
      r_cookingTime r = JNum (Num 0) \<and> r_servings r = JNum (Num 0) \<and>
      r_name (mapRecipe_detail ''r2'' (Some doc_dated)) = JStr ''Untitled Recipe'' \<and>
      r_userId (mapRecipe_detail ''r2'' (Some doc_dated)) = JStr ''unknown''"
proof -
  have "js_get doc_dated ''name'' = JStr []" "js_get doc_dated ''userId'' = JStr []"
    "js_get doc_dated ''cookingTime'' = JNum (Num 0)" "js_get doc_dated ''servings'' = JNull"
    by (simp_all add: doc_dated_def js_get_def)
  then show ?thesis
    using mapper_falsy_defaults [of "''r2''" doc_dated] by auto
qed

text \<open>The document of a recipe holds the recipe's fields.\<close>

lemma js_get_document_of:
  "js_get (document_of r) ''name'' = r_name r"
  "js_get (document_of r) ''ingredients'' = r_ingredients r"
  "js_get (document_of r) ''instructions'' = r_instructions r"
  "js_get (document_of r) ''cookingTime'' = r_cookingTime r"
  "js_get (document_of r) ''servings'' = r_servings r"
  "js_get (document_of r) ''userId'' = r_userId r"
  "js_get (document_of r) ''imageUrl'' = r_imageUrl r"
  "js_get (document_of r) ''categories'' = r_categories r"
  "js_get (document_of r) ''createdAt'' = r_createdAt r"
  by (simp_all add: js_get_def document_of_def Let_def)

lemma created_roundtrip:
  "(case stored_date (case v of JTimestamp t \<Rightarrow> Some (Timestamp_toDate t) | _ \<Rightarrow> None) of
      JTimestamp t \<Rightarrow> Some (Timestamp_toDate t) | _ \<Rightarrow> None) =
   (case v of JTimestamp t \<Rightarrow> Some (Timestamp_toDate t) | _ \<Rightarrow> None)"
  by (cases v) (simp_all add: stored_date_def toDate_fromDate)

lemma mapRecipe_list_idem:
  "mapRecipe_list doc_id data = Inr r \<Longrightarrow>
     mapRecipe_list doc_id (document_of_listed r) = Inr r"
  unfolding mapRecipe_list_Inr
  by (auto simp add: document_of_listed_def js_get_document_of js_or_idem js_coalesce_idem
      created_roundtrip)

lemma mapRecipe_detail_idem:
  "mapRecipe_detail doc_id (Some (document_of (mapRecipe_detail doc_id odata))) =
     mapRecipe_detail doc_id odata"
  by (simp add: mapRecipe_detail_def js_opt_get_def js_get_document_of js_or_idem
      js_coalesce_idem)

lemma mapRecipe_list_fields:
  "\<forall>k \<in> set recipe_fields. data k = data' k \<Longrightarrow>
     mapRecipe_list doc_id data = mapRecipe_list doc_id data'"
  unfolding mapRecipe_list_Inr by (simp add: recipe_fields_def js_get_def)

lemma mapRecipe_detail_fields:
  "\<forall>k \<in> set recipe_fields. data k = data' k \<Longrightarrow>
     mapRecipe_detail doc_id (Some data) = mapRecipe_detail doc_id (Some data')"
  by (simp add: mapRecipe_detail_def recipe_fields_def js_opt_get_def js_get_def)

text \<open>
  Claim C6. Mapping the document equivalent to a mapped recipe gives that recipe again,
  on the list page and on the detail page. The mapper is deterministic: its result is
  fixed by the snapshot's id and the nine fields it reads, so two documents that agree
  on these are mapped to the same recipe.
\<close>

theorem mapper_idempotent:
  "(\<exists>r. mapRecipe_list doc_id data = Inr r \<and>
        mapRecipe_list doc_id (document_of_listed r) = Inr r) \<and>
   mapRecipe_detail doc_id (Some (document_of (mapRecipe_detail doc_id odata))) =
     mapRecipe_detail doc_id odata \<and>
   ((\<forall>k \<in> set recipe_fields. data k = data' k) \<longrightarrow>
      mapRecipe_list doc_id data = mapRecipe_list doc_id data' \<and>
      mapRecipe_detail doc_id (Some data) = mapRecipe_detail doc_id (Some data'))"
proof -
  obtain r where r: "mapRecipe_list doc_id data = Inr r"
    by (simp add: mapRecipe_list_Inr)
  show ?thesis
    using r mapRecipe_list_idem [OF r] mapRecipe_detail_idem mapRecipe_list_fields
      mapRecipe_detail_fields
    by blast
qed

theorem mapper_idempotent_witness:
  "mapRecipe_list ''r2'' doc_dated =
     Inr \<lparr> r_id = ''r2'', r_name = JStr ''Untitled Recipe'', r_ingredients = JArr [],
           r_instructions = JArr [], r_cookingTime = JNum (Num 0),
           r_servings = JNum (Num 0), r_userId = JStr ''unknown'',
           r_imageUrl = JStr [], r_categories = JArr [], r_createdAt = Some (Date 7001) \<rparr> \<and>
   mapRecipe_list ''r2''
     (document_of_listed
        \<lparr> r_id = ''r2'', r_name = JStr ''Untitled Recipe'', r_ingredients = JArr [],
          r_instructions = JArr [], r_cookingTime = JNum (Num 0),
          r_servings = JNum (Num 0), r_userId = JStr ''unknown'',
          r_imageUrl = JStr [], r_categories = JArr [], r_createdAt = Some (Date 7001) \<rparr>) =
     mapRecipe_list ''r2'' doc_dated \<and>
   mapRecipe_list ''r2'' (doc_dated(''note'' \<mapsto> JNull)) = mapRecipe_list ''r2'' doc_dated"
proof -
  have m: "mapRecipe_list ''r2'' doc_dated =
     Inr \<lparr> r_id = ''r2'', r_name = JStr ''Untitled Recipe'', r_ingredients = JArr [],
           r_instructions = JArr [], r_cookingTime = JNum (Num 0),
           r_servings = JNum (Num 0), r_userId = JStr ''unknown'',
           r_imageUrl = JStr [], r_categories = JArr [], r_createdAt = Some (Date 7001) \<rparr>"
    by (simp add: mapRecipe_list_Inr doc_dated_def js_get_def js_or_def js_coalesce_def
        Timestamp_toDate_def)
  have agree: "\<forall>k \<in> set recipe_fields. (doc_dated(''note'' \<mapsto> JNull)) k = doc_dated k"
    by (simp add: recipe_fields_def)
  show ?thesis
    using mapper_idempotent [of "''r2''" "doc_dated(''note'' \<mapsto> JNull)" None doc_dated]
      mapper_idempotent [of "''r2''" doc_dated None doc_dated] m agree
    by auto
qed

section \<open>The recipe creation form\<close>

lemma num_truthy_iff: "num_truthy n \<longleftrightarrow> n \<noteq> Num 0 \<and> n \<noteq> NaN"
  by (cases n) simp_all

lemma ValidationError_iff:
  "ValidationError (handleSubmit f user now accepted) \<longleftrightarrow> validation_fails f"
  by (simp add: ValidationError_def handleSubmit_def validation_message_def)

lemma validation_fails_iff:
  "validation_fails f \<longleftrightarrow>
     recipeName f = [] \<or>
     (\<exists>ing \<in> set (ingredients f).
        name ing = [] \<or> quantity ing = Num 0 \<or> quantity ing = NaN \<or> unit ing = []) \<or>
     [] \<in> set (instructions f) \<or>
     cookingTime f = Blank \<or>
     servings f = Blank"
  by (auto simp add: validation_fails_def list_ex_iff num_truthy_iff)

text \<open>A draft that passes the validation loses no ingredient to the filter.\<close>

lemma ingredients_kept:
  "\<not> validation_fails f \<Longrightarrow> rd_ingredients (recipeData f user now) = ingredients f"
  by (auto simp add: validation_fails_def recipeData_def list_ex_iff intro: filter_True)

text \<open>The two drafts on which the code and the specification's constraints part: a
  negative quantity and a step of blanks are both truthy.\<close>

lemma negative_quantity_accepted:
  "\<not> spec_required_fields draft_negative \<and>
   \<not> ValidationError (handleSubmit draft_negative alice (Timestamp 100 0) True)"
  by (simp add: ValidationError_def handleSubmit_def validation_fails_def
      spec_required_fields_def draft_negative_def draft_salt_def)

text \<open>
  Claim C1, as the code has it. \<open>create\<close> fails with the validation error, and sends no
  insert, exactly when the name is empty, or an ingredient has an empty name, an empty
  unit or a quantity that is zero or NaN, or an instruction step is the empty string, or
  cooking time or servings was never entered; otherwise it sends one insert. So a draft
  with an ingredient of quantity 0 fails, and the ingredient of quantity 5, unit ``g''
  and name ``Salt'' passes. The test of a quantity is its truthiness and the test of a
  step is made before any trimming.
\<close>

theorem create_validation:
  "(ValidationError (handleSubmit f user now accepted) \<longleftrightarrow>
      recipeName f = [] \<or>
      (\<exists>ing \<in> set (ingredients f).
         name ing = [] \<or> quantity ing = Num 0 \<or> quantity ing = NaN \<or> unit ing = []) \<or>
      [] \<in> set (instructions f) \<or>
      cookingTime f = Blank \<or>
      servings f = Blank) \<and>
   (ValidationError (handleSubmit f user now accepted) \<longrightarrow>
      sr_inserts (handleSubmit f user now accepted) = []) \<and>
   (\<not> ValidationError (handleSubmit f user now accepted) \<longrightarrow>
      length (sr_inserts (handleSubmit f user now accepted)) = 1) \<and>
   ((\<exists>ing \<in> set (ingredients f). quantity ing = Num 0) \<longrightarrow>
      ValidationError (handleSubmit f user now accepted)) \<and>
   (recipeName f \<noteq> [] \<and> [] \<notin> set (instructions f) \<and> cookingTime f \<noteq> Blank \<and>
    servings f \<noteq> Blank \<and>
    ingredients f = [\<lparr> name = ''Salt'', quantity = Num 5, unit = ''g'' \<rparr>] \<longrightarrow>
      \<not> ValidationError (handleSubmit f user now accepted))"
proof -
  have iff: "ValidationError (handleSubmit f user now accepted) \<longleftrightarrow>
      recipeName f = [] \<or>
      (\<exists>ing \<in> set (ingredients f).
         name ing = [] \<or> quantity ing = Num 0 \<or> quantity ing = NaN \<or> unit ing = []) \<or>
      [] \<in> set (instructions f) \<or>
      cookingTime f = Blank \<or>
      servings f = Blank"
    unfolding ValidationError_iff by (rule validation_fails_iff)
  have none: "ValidationError (handleSubmit f user now accepted) \<longrightarrow>
      sr_inserts (handleSubmit f user now accepted) = []"
    by (simp add: ValidationError_def)
  have one: "\<not> ValidationError (handleSubmit f user now accepted) \<longrightarrow>
      length (sr_inserts (handleSubmit f user now accepted)) = 1"
    unfolding ValidationError_iff by (simp add: handleSubmit_def)
  have zero: "(\<exists>ing \<in> set (ingredients f). quantity ing = Num 0) \<longrightarrow>
      ValidationError (handleSubmit f user now accepted)"
    unfolding iff by blast
  have salt: "recipeName f \<noteq> [] \<and> [] \<notin> set (instructions f) \<and> cookingTime f \<noteq> Blank \<and>
    servings f \<noteq> Blank \<and>
    ingredients f = [\<lparr> name = ''Salt'', quantity = Num 5, unit = ''g'' \<rparr>] \<longrightarrow>
      \<not> ValidationError (handleSubmit f user now accepted)"
    unfolding iff by auto
  from iff none one zero salt show ?thesis
    by blast
qed

theorem create_validation_witness:
  "ValidationError (handleSubmit draft_zero alice (Timestamp 100 0) True) \<and>
   sr_inserts (handleSubmit draft_zero alice (Timestamp 100 0) True) = [] \<and>
   \<not> ValidationError (handleSubmit draft_salt alice (Timestamp 100 0) True) \<and>
   length (sr_inserts (handleSubmit draft_salt alice (Timestamp 100 0) True)) = 1"
proof -
  have z: "\<exists>ing \<in> set (ingredients draft_zero). quantity ing = Num 0"
    by (simp add: draft_zero_def draft_salt_def)
  have s: "recipeName draft_salt \<noteq> [] \<and> [] \<notin> set (instructions draft_salt) \<and>
    cookingTime draft_salt \<noteq> Blank \<and> servings draft_salt \<noteq> Blank \<and>
    ingredients draft_salt = [\<lparr> name = ''Salt'', quantity = Num 5, unit = ''g'' \<rparr>]"
    by (simp add: draft_salt_def)
  show ?thesis
    using create_validation [of draft_zero alice "Timestamp 100 0" True]
      create_validation [of draft_salt alice "Timestamp 100 0" True] z s
    by blast
qed

text \<open>
  The claim as the specification words it does not hold: a draft whose only instruction
  step is two blanks violates ``every instruction step non-empty after trimming'', yet
  it passes the validation, the insert is sent, and the step is dropped from the stored
  document.
\<close>

theorem create_validation_counterexample:
  "\<not> spec_required_fields draft_blank_step \<and>
   \<not> ValidationError (handleSubmit draft_blank_step alice (Timestamp 100 0) True) \<and>
   map fst (sr_inserts (handleSubmit draft_blank_step alice (Timestamp 100 0) True)) =
     [''recipes''] \<and>
   map (rd_instructions \<circ> snd)
     (sr_inserts (handleSubmit draft_blank_step alice (Timestamp 100 0) True)) = [[]]"
  by (simp add: ValidationError_def handleSubmit_def validation_fails_def
      spec_required_fields_def draft_blank_step_def draft_salt_def recipeData_def
      trim_def js_whitespace_def)

text \<open>
  Claim C5. For a draft that passes the validation, \<open>create\<close> sends exactly one insert,
  into the recipes collection. The document sent has the draft's ingredients, all of
  them and in order, the creation time read at the call and the caller's id as owner;
  it has an image URL only when the trimmed input is non-empty (then the trimmed
  input), and categories only when the parsed list is non-empty (then the parsed list).
\<close>

theorem create_insert:
  "\<not> ValidationError (handleSubmit f user now accepted) \<Longrightarrow>
     sr_inserts (handleSubmit f user now accepted) = [(''recipes'', recipeData f user now)] \<and>
     rd_ingredients (recipeData f user now) = ingredients f \<and>
     rd_createdAt (recipeData f user now) = now \<and>
     rd_userId (recipeData f user now) = uid user \<and>
     rd_imageUrl (recipeData f user now) =
       (if trim (imageUrl f) = [] then None else Some (trim (imageUrl f))) \<and>
     rd_categories (recipeData f user now) =
       (if parsedCategories (categories f) = [] then None
        else Some (parsedCategories (categories f))) \<and>
     rd_imageUrl (recipeData f user now) \<noteq> Some [] \<and>
     rd_categories (recipeData f user now) \<noteq> Some []"
proof -
  assume "\<not> ValidationError (handleSubmit f user now accepted)"
  then have ok: "\<not> validation_fails f"
    by (simp add: ValidationError_iff)
  then have "sr_inserts (handleSubmit f user now accepted) =
      [(''recipes'', recipeData f user now)]"
    by (simp add: handleSubmit_def)
  moreover have "rd_ingredients (recipeData f user now) = ingredients f"
    using ok by (rule ingredients_kept)
  moreover have "rd_createdAt (recipeData f user now) = now"
    "rd_userId (recipeData f user now) = uid user"
    "rd_imageUrl (recipeData f user now) =
       (if trim (imageUrl f) = [] then None else Some (trim (imageUrl f)))"
    "rd_categories (recipeData f user now) =
       (if parsedCategories (categories f) = [] then None
        else Some (parsedCategories (categories f)))"
    by (simp_all add: recipeData_def)
  ultimately show ?thesis
    by simp
qed

theorem create_insert_witness:
  "\<not> ValidationError (handleSubmit draft_salt alice (Timestamp 100 0) True) \<and>
   sr_inserts (handleSubmit draft_salt alice (Timestamp 100 0) True) =
     [(''recipes'', recipeData draft_salt alice (Timestamp 100 0))] \<and>
   rd_ingredients (recipeData draft_salt alice (Timestamp 100 0)) =
     [\<lparr> name = ''Salt'', quantity = Num 5, unit = ''g'' \<rparr>] \<and>
   rd_createdAt (recipeData draft_salt alice (Timestamp 100 0)) = Timestamp 100 0 \<and>
   rd_imageUrl (recipeData draft_salt alice (Timestamp 100 0)) = None \<and>
   rd_categories (recipeData draft_salt alice (Timestamp 100 0)) = None"
proof -
  have ok: "\<not> ValidationError (handleSubmit draft_salt alice (Timestamp 100 0) True)"
    by (simp add: ValidationError_def handleSubmit_def validation_fails_def draft_salt_def)
  have "trim (imageUrl draft_salt) = []"
    by (simp add: draft_salt_def trim_def js_whitespace_def)
  moreover have "parsedCategories (categories draft_salt) = []"
    by (simp add: draft_salt_def parsedCategories_def trim_def js_whitespace_def)
  moreover have "ingredients draft_salt = [\<lparr> name = ''Salt'', quantity = Num 5, unit = ''g'' \<rparr>]"
    by (simp add: draft_salt_def)
  ultimately show ?thesis
    using create_insert [OF ok] ok by simp
qed

section \<open>The session store\<close>

lemma auth_run_Nil: "auth_run s [] = s"
  by (simp add: auth_run_def)

lemma auth_run_Cons: "auth_run s (e # es) = auth_run (auth_step s e) es"
  by (simp add: auth_run_def)

lemma auth_step_other: "\<not> is_callback e \<Longrightarrow> auth_step s e = s"
  by (cases e) simp_all

lemma auth_run_others: "\<not> list_ex is_callback es \<Longrightarrow> auth_run s es = s"
  by (induction es arbitrary: s) (simp_all add: auth_run_Nil auth_run_Cons auth_step_other)

text \<open>Nothing sets \<open>loading\<close> back to true.\<close>

lemma auth_step_resolved: "\<not> loading s \<Longrightarrow> \<not> loading (auth_step s e)"
  by (cases e) simp_all

lemma auth_run_resolved: "\<not> loading s \<Longrightarrow> \<not> loading (auth_run s es)"
  by (induction es arbitrary: s) (simp_all add: auth_run_Nil auth_run_Cons auth_step_resolved)

text \<open>While the store is unresolved it holds no user.\<close>

lemma auth_step_no_user:
  "loading s \<longrightarrow> currentUser s = None \<Longrightarrow>
     loading (auth_step s e) \<longrightarrow> currentUser (auth_step s e) = None"
  by (cases e) simp_all

lemma auth_run_no_user:
  "loading s \<longrightarrow> currentUser s = None \<Longrightarrow>
     loading (auth_run s es) \<longrightarrow> currentUser (auth_run s es) = None"
proof (induction es arbitrary: s)
  case Nil
  then show ?case by (simp add: auth_run_Nil)
next
  case (Cons e es)
  from Cons.prems have "loading (auth_step s e) \<longrightarrow> currentUser (auth_step s e) = None"
    by (rule auth_step_no_user)
  then show ?case
    unfolding auth_run_Cons by (rule Cons.IH)
qed

lemma session_of_Unresolved: "session_of s = Unresolved \<longleftrightarrow> loading s"
  by (simp add: session_of_def split: option.split)

text \<open>
  Claim C8. The session store starts unresolved, with the loading flag set. Calls of
  sign-up, login and logout leave it so: it stays unresolved as long as the provider
  has not called back. A callback resolves it, to anonymous when it carries no user and
  to authenticated when it carries one, and after a callback no run of events makes it
  unresolved again. The creation page does not take the missing user of an unresolved
  store for a logged-out visitor: it redirects to the login page in the anonymous state
  only.
\<close>

theorem session_store_resolution:
  "session_of AuthProvider_init = Unresolved \<and>
   loading AuthProvider_init \<and>
   (\<not> list_ex is_callback es \<longrightarrow>
      session_of (auth_run AuthProvider_init es) = Unresolved \<and>
      loading (auth_run AuthProvider_init es)) \<and>
   session_of (auth_step s (AuthStateChanged user)) =
     (case user of None \<Rightarrow> Anonymous | Some u \<Rightarrow> Authenticated u) \<and>
   session_of (auth_run (auth_step s (AuthStateChanged user)) es') \<noteq> Unresolved \<and>
   (AddRecipePage_redirect a = Some ''/login'' \<longleftrightarrow> session_of a = Anonymous)"
proof -
  have redirect: "AddRecipePage_redirect a = Some ''/login'' \<longleftrightarrow> session_of a = Anonymous"
    by (simp add: AddRecipePage_redirect_def session_of_def split: option.split)
  have init: "session_of AuthProvider_init = Unresolved \<and> loading AuthProvider_init"
    by (simp add: session_of_def AuthProvider_init_def)
  have stay: "\<not> list_ex is_callback es \<longrightarrow>
      session_of (auth_run AuthProvider_init es) = Unresolved \<and>
      loading (auth_run AuthProvider_init es)"
    using init by (simp add: auth_run_others)
  have first: "session_of (auth_step s (AuthStateChanged user)) =
     (case user of None \<Rightarrow> Anonymous | Some u \<Rightarrow> Authenticated u)"
    by (simp add: session_of_def)
  have "\<not> loading (auth_step s (AuthStateChanged user))"
    by simp
  then have "\<not> loading (auth_run (auth_step s (AuthStateChanged user)) es')"
    by (rule auth_run_resolved)
  then have never: "session_of (auth_run (auth_step s (AuthStateChanged user)) es') \<noteq> Unresolved"
    by (simp add: session_of_Unresolved)
  from init stay first never redirect show ?thesis
    by blast
qed

theorem session_store_resolution_witness:
  "session_of (auth_run AuthProvider_init [LoginCalled ''a@b.com'' ''pw'', LogoutCalled]) =
     Unresolved \<and>
   session_of (auth_step AuthProvider_init (AuthStateChanged (Some alice))) =
     Authenticated alice \<and>
   session_of (auth_step AuthProvider_init (AuthStateChanged None)) = Anonymous \<and>
   session_of (auth_run (auth_step AuthProvider_init (AuthStateChanged (Some alice)))
     [LogoutCalled, AuthStateChanged None]) = Anonymous \<and>
   AddRecipePage_redirect AuthProvider_init \<noteq> Some ''/login''"
proof -
  have quiet: "\<not> list_ex is_callback [LoginCalled ''a@b.com'' ''pw'', LogoutCalled]"
    by simp
  have last: "session_of (auth_run (auth_step AuthProvider_init (AuthStateChanged (Some alice)))
     [LogoutCalled, AuthStateChanged None]) = Anonymous"
    by (simp add: auth_run_def session_of_def)
  show ?thesis
    using session_store_resolution
        [of "[LoginCalled ''a@b.com'' ''pw'', LogoutCalled]" AuthProvider_init "Some alice" "[]"
          AuthProvider_init]
      session_store_resolution [of "[]" AuthProvider_init None "[]" AuthProvider_init] quiet last
    by simp
qed

text \<open>
  Claim C4. When the provider creates the account and the profile write is rejected,
  \<open>signup\<close> ends with the error of the write, and the provider's session is the new
  user's: nothing in \<open>signup\<close> signs out or removes the account. No profile is stored.
  The callback that reports this session resolves the store to authenticated.
\<close>

theorem signup_profile_write_fails:
  "fst (signup w em pw (Inr user) False now) = Inl StoreError \<and>
   w_session (snd (signup w em pw (Inr user) False now)) = Some user \<and>
   w_users (snd (signup w em pw (Inr user) False now)) = w_users w \<and>
   session_of
     (auth_step s (AuthStateChanged (w_session (snd (signup w em pw (Inr user) False now))))) =
     Authenticated user"
  by (simp add: signup_def createUserWithEmailAndPassword_def setDoc_def session_of_def)

theorem signup_profile_write_fails_witness:
  "fst (signup world_init ''a@b.com'' ''pw'' (Inr alice) False (Date 5)) = Inl StoreError \<and>
   w_session (snd (signup world_init ''a@b.com'' ''pw'' (Inr alice) False (Date 5))) =
     Some alice \<and>
   w_session world_init = None"
  using signup_profile_write_fails [of world_init "''a@b.com''" "''pw''" alice "Date 5"]
  by (simp add: world_init_def)

section \<open>The recipe detail page\<close>

lemma load_recipe_missing:
  "st_reachable st \<Longrightarrow> map_of (st_recipes st) recipeId = None \<Longrightarrow>
     load_recipe st recipeId = Inl NotFoundSignal"
  by (simp add: load_recipe_def getDoc_def snap_exists_def notFound_def)

lemma load_recipe_unreachable:
  "\<not> st_reachable st \<Longrightarrow> load_recipe st recipeId = Inl StoreError"
  by (simp add: load_recipe_def getDoc_def)

text \<open>On the client page a missing document and an unreachable store end in the same
  state: the \<^verbatim>\<open>catch\<close> that reports the store's failure also takes the signal of
  \<^verbatim>\<open>notFound()\<close>.\<close>

lemma fetchRecipe_missing:
  "st_reachable st \<Longrightarrow> map_of (st_recipes st) recipeId = None \<Longrightarrow>
     fetchRecipe st recipeId s = s\<lparr> dp_error := Some ''Failed to load recipe.'', dp_loading := False \<rparr>"
  by (simp add: fetchRecipe_def load_recipe_missing)

lemma fetchRecipe_unreachable:
  "\<not> st_reachable st \<Longrightarrow>
     fetchRecipe st recipeId s = s\<lparr> dp_error := Some ''Failed to load recipe.'', dp_loading := False \<rparr>"
  by (simp add: fetchRecipe_def load_recipe_unreachable)

text \<open>
  Claim C3. The request for an id that the store does not hold, made by the client
  detail page: the page ends with the message ``Failed to load recipe.'', the very
  state it ends in when the store cannot be reached, and the not-found signal never
  leaves \<open>fetchRecipe\<close>. The server page, on the same request, lets the signal through.
\<close>

theorem getById_missing_on_client:
  "fetchRecipe (store_soup\<lparr> st_reachable := True \<rparr>) ''r9'' DetailPage_init =
     \<lparr> dp_recipe = None, dp_loading = False, dp_error = Some ''Failed to load recipe.'' \<rparr> \<and>
   fetchRecipe (store_soup\<lparr> st_reachable := False \<rparr>) ''r9'' DetailPage_init =
     fetchRecipe (store_soup\<lparr> st_reachable := True \<rparr>) ''r9'' DetailPage_init \<and>
   RecipeDetailPage_server rt (store_soup\<lparr> st_reachable := True \<rparr>) ''r9'' =
     Inl NotFoundSignal \<and>
   RecipeDetailPage_server rt (store_soup\<lparr> st_reachable := False \<rparr>) ''r9'' = Inl StoreError"
  by (simp add: fetchRecipe_def RecipeDetailPage_server_def load_recipe_def getDoc_def
      snap_exists_def notFound_def store_soup_def DetailPage_init_def)

subsection \<open>The markup of the detail view\<close>

lemma react_children_append:
  "react_children (xs @ ys) \<longleftrightarrow> react_children xs \<and> react_children ys"
  by (induction xs) simp_all

text \<open>A callback that succeeds on every element of a list, with children that React
  renders, makes the whole \<^verbatim>\<open>map\<close> succeed with such children.\<close>

lemma collect_items:
  "list_all p xs \<Longrightarrow> \<forall>x. p x \<longrightarrow> (\<exists>cs. f x = Inr cs \<and> react_children cs) \<Longrightarrow>
     \<exists>css. collect (map f xs) = Inr css \<and> react_children (concat css)"
proof (induction xs)
  case Nil
  then show ?case by simp
next
  case (Cons x xs)
  from Cons.prems(1) have px: "p x" and pxs: "list_all p xs"
    by simp_all
  from Cons.prems(2) px obtain cs where cs: "f x = Inr cs" "react_children cs"
    by blast
  from Cons.IH [OF pxs Cons.prems(2)] obtain css
    where css: "collect (map f xs) = Inr css" "react_children (concat css)"
    by blast
  from cs css show ?case
    by (simp add: react_children_append)
qed

lemma typed_string_child: "typed_string v \<Longrightarrow> react_child v"
  by (cases v) simp_all

lemma typed_number_child: "typed_number v \<Longrightarrow> react_child v"
  by (cases v) simp_all

lemma ingredient_item_typed:
  "typed_ingredient ing \<Longrightarrow> \<exists>cs. ingredient_item ing = Inr cs \<and> react_children cs"
proof (cases ing)
  case (JObj kvs)
  assume "typed_ingredient ing"
  with JObj obtain n q u where f: "map_of kvs ''name'' = Some n"
    "map_of kvs ''quantity'' = Some q" "map_of kvs ''unit'' = Some u"
    and t: "typed_string n" "typed_number q" "typed_string u"
    by (auto split: option.splits)
  from t have "react_child n" "react_child q" "react_child u"
    by (simp_all add: typed_string_child typed_number_child)
  with JObj f show ?thesis
    by (simp add: ingredient_item_def js_member_def)
qed simp_all

lemma plain_item_typed:
  "typed_string x \<Longrightarrow> \<exists>cs. plain_item x = Inr cs \<and> react_children cs"
  by (cases x) (simp_all add: plain_item_def)

lemma list_section_typed:
  "typed_array p v \<Longrightarrow> \<forall>x. p x \<longrightarrow> (\<exists>cs. item x = Inr cs \<and> react_children cs) \<Longrightarrow>
     \<exists>cs. list_section item v = Inr cs \<and> react_children cs"
proof (cases v)
  case (JArr xs)
  assume "typed_array p v"
    and item: "\<forall>x. p x \<longrightarrow> (\<exists>cs. item x = Inr cs \<and> react_children cs)"
  with JArr have "list_all p xs"
    by simp
  from collect_items [OF this item] obtain css
    where "collect (map item xs) = Inr css" "react_children (concat css)"
    by blast
  with JArr show ?thesis
    by (simp add: list_section_def js_length_def js_map_def)
qed simp_all

lemma categories_section_typed:
  "typed_array typed_string v \<Longrightarrow>
     \<exists>cs. categories_section rt v = Inr cs \<and> react_children cs"
proof (cases v)
  case (JArr xs)
  assume "typed_array typed_string v"
  with JArr have "list_all typed_string xs"
    by simp
  moreover have "\<forall>x. typed_string x \<longrightarrow> (\<exists>cs. plain_item x = Inr cs \<and> react_children cs)"
    using plain_item_typed by blast
  ultimately obtain css
    where "collect (map plain_item xs) = Inr css" "react_children (concat css)"
    using collect_items by blast
  with JArr show ?thesis
    by (simp add: categories_section_def js_length_def js_map_def)
qed simp_all

lemma createdAt_line_typed:
  "typed_created c \<Longrightarrow> \<exists>cs. createdAt_line c = Inr cs \<and> react_children cs"
  by (cases c) (simp_all add: createdAt_line_def toDate_def)

text \<open>The markup is written for recipes of the declared types: on these it does not
  throw, whatever the conversion to numbers is.\<close>

lemma render_detail_typed:
  assumes typed: "well_typed recipe"
    and image: "truthy (r_imageUrl recipe) \<longrightarrow> rt_Image rt (r_imageUrl recipe) (r_name recipe)"
  shows "render_detail rt recipe = Inr ()"
proof -
  from typed have t: "typed_string (r_name recipe)" "typed_number (r_servings recipe)"
    "typed_number (r_cookingTime recipe)" "typed_string (r_userId recipe)"
    "typed_string (r_imageUrl recipe)"
    by (simp_all add: well_typed_def)
  then have plain: "react_child (r_name recipe)" "react_child (r_servings recipe)"
    "react_child (r_cookingTime recipe)" "react_child (r_userId recipe)"
    "react_child (r_imageUrl recipe)"
    by (simp_all add: typed_string_child typed_number_child)
  from typed obtain c where c: "createdAt_line (r_createdAt recipe) = Inr c" "react_children c"
    using createdAt_line_typed [of "r_createdAt recipe"] by (auto simp add: well_typed_def)
  from typed obtain ing
    where ing: "list_section ingredient_item (r_ingredients recipe) = Inr ing"
      "react_children ing"
    using list_section_typed [of typed_ingredient "r_ingredients recipe" ingredient_item]
      ingredient_item_typed
    by (auto simp add: well_typed_def)
  from typed obtain ins
    where ins: "list_section plain_item (r_instructions recipe) = Inr ins"
      "react_children ins"
    using list_section_typed [of typed_string "r_instructions recipe" plain_item]
      plain_item_typed
    by (auto simp add: well_typed_def)
  from typed obtain cat
    where cat: "categories_section rt (r_categories recipe) = Inr cat" "react_children cat"
    using categories_section_typed [of "r_categories recipe" rt]
    by (auto simp add: well_typed_def)
  from plain c ing ins cat image show ?thesis
    by (simp add: render_detail_def detail_markup_def react_children_append)
qed

lemma edit_offered_detail:
  "edit_offered (detail_or_nothing rt (Some recipe) user) \<longleftrightarrow>
     render_detail rt recipe = Inr () \<and> isOwner user recipe"
  by (cases "render_detail rt recipe") (simp_all add: detail_or_nothing_def)

text \<open>
  Claim C9, as the code has it. On the detail page of a loaded recipe, whatever the
  session store has been through, the ``Edit Recipe'' link is shown exactly when the
  detail view renders without throwing and the session is authenticated with the user's
  id equal to the recipe's \<open>userId\<close>. The view renders for every recipe whose fields
  have the types of the \<^verbatim>\<open>Recipe\<close> interface, provided the framework renders its image
  when it has one.
\<close>

theorem edit_link_when_rendered:
  "dp_recipe s = Some recipe \<and> \<not> dp_loading s \<and> dp_error s = None \<Longrightarrow>
     (edit_offered (RecipeDetailPage_render rt s (auth_run AuthProvider_init es)) \<longleftrightarrow>
        render_detail rt recipe = Inr () \<and>
        (\<exists>u. session_of (auth_run AuthProvider_init es) = Authenticated u \<and>
             r_userId recipe = JStr (uid u))) \<and>
     (well_typed recipe \<and>
      (truthy (r_imageUrl recipe) \<longrightarrow> rt_Image rt (r_imageUrl recipe) (r_name recipe)) \<longrightarrow>
        render_detail rt recipe = Inr ())"
proof -
  assume page: "dp_recipe s = Some recipe \<and> \<not> dp_loading s \<and> dp_error s = None"
  define a where "a = auth_run AuthProvider_init es"
  have "loading AuthProvider_init \<longrightarrow> currentUser AuthProvider_init = None"
    by (simp add: AuthProvider_init_def)
  then have inv: "loading a \<longrightarrow> currentUser a = None"
    unfolding a_def by (rule auth_run_no_user)
  have link: "edit_offered (RecipeDetailPage_render rt s a) \<longleftrightarrow>
      render_detail rt recipe = Inr () \<and>
      (\<exists>u. session_of a = Authenticated u \<and> r_userId recipe = JStr (uid u))"
  proof (cases "loading a")
    case True
    then show ?thesis
      by (simp add: RecipeDetailPage_render_def session_of_def)
  next
    case False
    with page have "RecipeDetailPage_render rt s a =
        detail_or_nothing rt (Some recipe) (currentUser a)"
      by (simp add: RecipeDetailPage_render_def)
    moreover have "isOwner (currentUser a) recipe \<longleftrightarrow>
        (\<exists>u. session_of a = Authenticated u \<and> r_userId recipe = JStr (uid u))"
      using False by (cases "currentUser a") (auto simp add: session_of_def isOwner_def)
    ultimately show ?thesis
      by (simp add: edit_offered_detail)
  qed
  have "well_typed recipe \<and>
      (truthy (r_imageUrl recipe) \<longrightarrow> rt_Image rt (r_imageUrl recipe) (r_name recipe)) \<longrightarrow>
        render_detail rt recipe = Inr ()"
    using render_detail_typed by blast
  with link show ?thesis
    by (simp add: a_def)
qed

theorem edit_link_when_rendered_witness:
  "edit_offered
     (RecipeDetailPage_render runtime_plain (fetchRecipe store_soup ''r1'' DetailPage_init)
        (auth_run AuthProvider_init [AuthStateChanged (Some alice)])) \<and>
   \<not> edit_offered
     (RecipeDetailPage_render runtime_plain (fetchRecipe store_soup ''r1'' DetailPage_init)
        (auth_run AuthProvider_init [AuthStateChanged None]))"
proof -
  define soup where
    "soup = mapRecipe_detail ''r1'' (Some [''name'' \<mapsto> JStr ''Soup'', ''userId'' \<mapsto> JStr ''u1''])"
  have page: "dp_recipe (fetchRecipe store_soup ''r1'' DetailPage_init) = Some soup \<and>
    \<not> dp_loading (fetchRecipe store_soup ''r1'' DetailPage_init) \<and>
    dp_error (fetchRecipe store_soup ''r1'' DetailPage_init) = None"
    by (simp add: soup_def fetchRecipe_def load_recipe_def getDoc_def snap_exists_def
        store_soup_def DetailPage_init_def)
  have owner: "r_userId soup = JStr (uid alice)"
    by (simp add: soup_def mapRecipe_detail_def js_opt_get_def js_get_def js_or_def alice_def)
  have typed: "well_typed soup \<and>
      (truthy (r_imageUrl soup) \<longrightarrow> rt_Image runtime_plain (r_imageUrl soup) (r_name soup))"
    by (simp add: soup_def well_typed_def mapRecipe_detail_def js_opt_get_def js_get_def
        js_or_def js_coalesce_def)
  have in': "session_of (auth_run AuthProvider_init [AuthStateChanged (Some alice)]) =
      Authenticated alice"
    by (simp add: auth_run_def session_of_def)
  have out: "session_of (auth_run AuthProvider_init [AuthStateChanged None]) = Anonymous"
    by (simp add: auth_run_def session_of_def)
  show ?thesis
    using edit_link_when_rendered [OF page, of runtime_plain "[AuthStateChanged (Some alice)]"]
      edit_link_when_rendered [OF page, of runtime_plain "[AuthStateChanged None]"]
      owner typed in' out
    by simp
qed

text \<open>
  The claim as the specification words it does not hold of every recipe: a stored
  recipe whose \<open>createdAt\<close> is the string ``yesterday'' is loaded, its owner is signed
  in, and the render throws at \<^verbatim>\<open>recipe.createdAt.toDate()\<close>, so that the owner is
  offered no link.
\<close>

theorem edit_link_counterexample:
  "session_of (auth_run AuthProvider_init [AuthStateChanged (Some alice)]) =
     Authenticated alice \<and>
   map_option r_userId (dp_recipe (fetchRecipe store_yesterday ''r2'' DetailPage_init)) =
     Some (JStr (uid alice)) \<and>
   dp_error (fetchRecipe store_yesterday ''r2'' DetailPage_init) = None \<and>
   RecipeDetailPage_render runtime_plain (fetchRecipe store_yesterday ''r2'' DetailPage_init)
     (auth_run AuthProvider_init [AuthStateChanged (Some alice)]) = Inl TypeError \<and>
   \<not> edit_offered
     (RecipeDetailPage_render runtime_plain (fetchRecipe store_yesterday ''r2'' DetailPage_init)
        (auth_run AuthProvider_init [AuthStateChanged (Some alice)]))"
proof -
  define stew where
    "stew = mapRecipe_detail ''r2''
       (Some [''name'' \<mapsto> JStr ''Stew'', ''userId'' \<mapsto> JStr ''u1'',
              ''createdAt'' \<mapsto> JStr ''yesterday''])"
  have page: "fetchRecipe store_yesterday ''r2'' DetailPage_init =
      \<lparr> dp_recipe = Some stew, dp_loading = False, dp_error = None \<rparr>"
    by (simp add: stew_def fetchRecipe_def load_recipe_def getDoc_def snap_exists_def
        store_yesterday_def DetailPage_init_def)
  have auth: "auth_run AuthProvider_init [AuthStateChanged (Some alice)] =
      \<lparr> currentUser = Some alice, loading = False \<rparr>"
    by (simp add: auth_run_def AuthProvider_init_def)
  have owner: "r_userId stew = JStr (uid alice)"
    by (simp add: stew_def mapRecipe_detail_def js_opt_get_def js_get_def js_or_def alice_def)
  have "createdAt_line (r_createdAt stew) = Inl TypeError"
    by (simp add: stew_def createdAt_line_def toDate_def mapRecipe_detail_def js_opt_get_def
        js_get_def js_or_def)
  then have "detail_markup runtime_plain stew = Inl TypeError"
    by (simp add: detail_markup_def)
  then have throws: "render_detail runtime_plain stew = Inl TypeError"
    by (simp add: render_detail_def)
  show ?thesis
    unfolding page auth
    by (simp add: RecipeDetailPage_render_def detail_or_nothing_def throws owner
        session_of_def)
qed

end
